theory Spec2Isabelle
  imports Main "HOL-Library.Word"
begin

section \<open>JavaScript values and errors\<close>

text \<open>
  The payloads the adapter stores are JSON values (\<open>data: any\<close> in the source, always the
  result of \<open>JSON.parse\<close> or the argument of \<open>JSON.stringify\<close>). \<open>undefined\<close> is the
  \<open>None\<close> of \<open>json option\<close>. Numbers are modelled as integers: the adapter only ever
  tests a number for truthiness (\<open>0\<close> is falsy).
\<close>

datatype json =
    JNull
  | JBool bool
  | JNum int
  | JStr string
  | JArr "json list"
  | JObj "(string \<times> json) list"

text \<open>JavaScript truthiness, the test behind \<open>!data\<close> and \<open>a || b\<close>.\<close>

fun truthy :: "json \<Rightarrow> bool" where
  "truthy JNull = False"
| "truthy (JBool b) = b"
| "truthy (JNum n) = (n \<noteq> 0)"
| "truthy (JStr s) = (s \<noteq> [])"
| "truthy (JArr xs) = True"
| "truthy (JObj kvs) = True"

text \<open>
  Everything the source can throw. \<open>PrismaError c\<close> is a record-store failure carrying
  the property \<open>code = c\<close> (\<open>P2025\<close>: the record to delete does not exist); \<open>Error m\<close> is
  \<open>new Error(m)\<close>; \<open>LibError\<close> is any other failure raised inside a library call.
\<close>

datatype error =
    ReferenceError string
  | TypeError string
  | SyntaxError string
  | Error string
  | PrismaError string
  | LibError string

text \<open>\<open>(error as any).code\<close>: only record-store failures carry a Prisma code.\<close>

fun error_code :: "error \<Rightarrow> string option" where
  "error_code (PrismaError c) = Some c"
| "error_code e = None"

type_synonym bytes = "8 word list"

section \<open>Library and environment\<close>

text \<open>
  Node's \<open>crypto\<close>, \<open>Buffer\<close> and \<open>JSON\<close> are not code of the repository: they are a
  parameter of the model. \<open>gcm_encrypt key iv text\<close> stands for
  \<open>createCipheriv('aes-256-gcm', key, iv)\<close> followed by \<open>update(text, 'utf8', 'hex')\<close>,
  \<open>final('hex')\<close> and \<open>getAuthTag()\<close>; on the way back the three calls that can throw
  are kept apart, in the order the source makes them.
\<close>

record lib =
  JSON_parse :: "string \<Rightarrow> error + json"
  JSON_stringify :: "json \<Rightarrow> string"
  Buffer_from_hex :: "string \<Rightarrow> bytes"
  Buffer_toString_hex :: "bytes \<Rightarrow> string"
  sha256 :: "string \<Rightarrow> bytes"
  gcm_encrypt :: "bytes \<Rightarrow> bytes \<Rightarrow> string \<Rightarrow> error + (string \<times> bytes)"
  createDecipheriv :: "bytes \<Rightarrow> bytes \<Rightarrow> error option"
  setAuthTag :: "bytes \<Rightarrow> error option"
  decipher_update_final :: "bytes \<Rightarrow> bytes \<Rightarrow> bytes \<Rightarrow> string \<Rightarrow> error + string"

text \<open>\<open>process.env\<close>, as far as the two modules read it.\<close>

record env =
  env_ENCRYPTION_KEY :: "string option"
  env_MCP_STORAGE_TYPE :: "string option"
  env_MCP_USER_ID :: "string option"
  env_MCP_CONNECTION_ID :: "string option"
  env_DATABASE_URL :: "string option"

text \<open>A string-or-undefined is truthy when it is a non-empty string.\<close>

fun str_truthy :: "string option \<Rightarrow> bool" where
  "str_truthy None = False"
| "str_truthy (Some s) = (s \<noteq> [])"

definition ENCRYPTION_KEY :: "env \<Rightarrow> string" where
  "ENCRYPTION_KEY E =
     (case env_ENCRYPTION_KEY E of
        Some k \<Rightarrow> if k \<noteq> [] then k else ''default-dev-key-change-in-production''
      | None \<Rightarrow> ''default-dev-key-change-in-production'')"

definition DB_MODE :: "env \<Rightarrow> bool" where
  "DB_MODE E = (env_MCP_STORAGE_TYPE E = Some ''database'')"

definition USER_ID :: "env \<Rightarrow> string option" where
  "USER_ID E = env_MCP_USER_ID E"

definition CONNECTION_ID :: "env \<Rightarrow> string option" where
  "CONNECTION_ID E = env_MCP_CONNECTION_ID E"

definition CACHE_TTL :: int where
  "CACHE_TTL = 5000"

section \<open>State\<close>

text \<open>
  The three tables of the record store, keyed as the \<open>where\<close> clauses of the source key
  them, hold the columns the adapter writes.
\<close>

record token_row =
  serverUrl :: string
  tokenData :: string
  tokenType :: json
  lastUpdated :: "int option"

record clientinfo_row =
  clientData :: string
  clientUpdatedAt :: "int option"

record storage_row =
  rowValue :: string
  rowUpdatedAt :: "int option"

record cache_entry =
  entry_data :: json
  entry_timestamp :: int

text \<open>
  An instance of the class \<open>DatabaseStorage\<close>: its two private fields, and the identity
  of the object (the number of the \<open>new\<close> that made it).
\<close>

record DatabaseStorage =
  this_userId :: string
  this_connectionId :: string
  objId :: nat

type_synonym fs = "string \<rightharpoonup> string"

text \<open>
  Everything the code reads or mutates: the record store, with the failure its calls
  raise for the time being (if any) and the number of calls that reached it; the module
  variables \<open>cache\<close>, \<open>storageInstance\<close> and, in the client module, \<open>prisma\<close> (the
  datasource URL of the client once constructed); the number of \<open>DatabaseStorage\<close>
  objects constructed; the lines passed to \<open>log\<close>; and the files of the fallback
  backend.
\<close>

record world =
  mCPRemoteToken :: "(string \<times> string \<times> string) \<rightharpoonup> token_row"
  mCPRemoteClientInfo :: "string \<rightharpoonup> clientinfo_row"
  mCPRemoteStorage :: "(string \<times> string \<times> string) \<rightharpoonup> storage_row"
  dbFault :: "error option"
  roundTrips :: nat
  cache :: "string \<rightharpoonup> cache_entry"
  storageInstance :: "DatabaseStorage option"
  prisma :: "string option"
  constructed :: nat
  logged :: "(string \<times> error) list"
  files :: fs

text \<open>
  A computation runs on the world and returns a value or throws. Every \<open>async\<close> function
  of the source is one: a rejected promise is \<open>Inl\<close>.
\<close>

type_synonym 'a io = "world \<Rightarrow> (error + 'a) \<times> world"

definition ret :: "'a \<Rightarrow> 'a io" where
  "ret x = (\<lambda>w. (Inr x, w))"

definition throw :: "error \<Rightarrow> 'a io" where
  "throw e = (\<lambda>w. (Inl e, w))"

definition bindIO :: "'a io \<Rightarrow> ('a \<Rightarrow> 'b io) \<Rightarrow> 'b io" where
  "bindIO m f = (\<lambda>w. case m w of (Inl e, w') \<Rightarrow> (Inl e, w') | (Inr x, w') \<Rightarrow> f x w')"

definition tryCatch :: "'a io \<Rightarrow> (error \<Rightarrow> 'a io) \<Rightarrow> 'a io" where
  "tryCatch m h = (\<lambda>w. case m w of (Inl e, w') \<Rightarrow> h e w' | (Inr x, w') \<Rightarrow> (Inr x, w'))"

definition liftE :: "error + 'a \<Rightarrow> 'a io" where
  "liftE r = (\<lambda>w. (r, w))"

definition bindE :: "error + 'a \<Rightarrow> ('a \<Rightarrow> error + 'b) \<Rightarrow> error + 'b" where
  "bindE r f = (case r of Inl e \<Rightarrow> Inl e | Inr x \<Rightarrow> f x)"

definition log :: "string \<Rightarrow> error \<Rightarrow> unit io" where
  "log msg e = (\<lambda>w. (Inr (), w\<lparr>logged := logged w @ [(msg, e)]\<rparr>))"

section \<open>Identifier resolution\<close>

text \<open>
  Evaluating an identifier that no enclosing scope binds throws a \<open>ReferenceError\<close>. The
  bindings of the adapter module are its imports, its top-level declarations and the
  globals it uses; each function and block adds its parameters and locals.
\<close>

definition resolveIdentifier :: "string list \<Rightarrow> string \<Rightarrow> unit io" where
  "resolveIdentifier scope name =
     (if name \<in> set scope then ret () else throw (ReferenceError (name @ '' is not defined'')))"

definition module_scope :: "string list" where
  "module_scope =
     [''getPrismaClient'', ''crypto'', ''log'',
      ''ENCRYPTION_KEY'', ''encrypt'', ''decrypt'',
      ''DB_MODE'', ''USER_ID'', ''CONNECTION_ID'', ''cache'', ''CACHE_TTL'',
      ''DatabaseStorage'', ''storageInstance'', ''getStorage'',
      ''fileReadJsonFile'', ''fileWriteJsonFile'', ''fileReadTextFile'',
      ''fileWriteTextFile'', ''fileDeleteConfigFile'',
      ''readJsonFile'', ''writeJsonFile'', ''readTextFile'', ''writeTextFile'',
      ''process'', ''Buffer'', ''JSON'', ''Date'', ''Map'', ''Error'', ''Promise'']"

definition readJson_scope :: "string list" where
  "readJson_scope =
     [''record'', ''data'', ''serverUrlHash'', ''filename'', ''cacheKey'', ''cached'']
       @ module_scope"

definition readJson_tokens_scope :: "string list" where
  "readJson_tokens_scope = [''prisma'', ''record'', ''decrypted'', ''data''] @ readJson_scope"

definition readJson_client_scope :: "string list" where
  "readJson_client_scope = [''record'', ''data''] @ readJson_scope"

definition writeJson_scope :: "string list" where
  "writeJson_scope = [''serverUrlHash'', ''filename'', ''data'', ''cacheKey''] @ module_scope"

definition writeJson_tokens_scope :: "string list" where
  "writeJson_tokens_scope = [''encrypted''] @ writeJson_scope"

definition delete_scope :: "string list" where
  "delete_scope = [''serverUrlHash'', ''filename'', ''cacheKey''] @ module_scope"

section \<open>The record store\<close>

text \<open>
  \<open>getPrismaClient\<close> of the client module: the client is constructed on first use, from
  \<open>DATABASE_URL\<close>, and kept in the module variable \<open>prisma\<close>.
\<close>

definition getPrismaClient :: "env \<Rightarrow> unit io" where
  "getPrismaClient E =
     (\<lambda>w. case prisma w of
        Some c \<Rightarrow> (Inr (), w)
      | None \<Rightarrow>
          (if \<not> str_truthy (env_DATABASE_URL E)
           then (Inl (Error ''DATABASE_URL is required for database storage mode''), w)
           else (Inr (), w\<lparr>prisma := env_DATABASE_URL E\<rparr>)))"

text \<open>
  A call on the client is one round trip. It raises the pending failure of the store, if
  there is one, and otherwise does its work on the table.
\<close>

definition roundTrip :: "'a io \<Rightarrow> 'a io" where
  "roundTrip work =
     (\<lambda>w. let w1 = w\<lparr>roundTrips := roundTrips w + 1\<rparr>
          in case dbFault w1 of Some e \<Rightarrow> (Inl e, w1) | None \<Rightarrow> work w1)"

definition token_findUnique :: "string \<times> string \<times> string \<Rightarrow> token_row option io" where
  "token_findUnique k = roundTrip (\<lambda>w. (Inr (mCPRemoteToken w k), w))"

definition clientInfo_findUnique :: "string \<Rightarrow> clientinfo_row option io" where
  "clientInfo_findUnique k = roundTrip (\<lambda>w. (Inr (mCPRemoteClientInfo w k), w))"

definition storage_findUnique :: "string \<times> string \<times> string \<Rightarrow> storage_row option io" where
  "storage_findUnique k = roundTrip (\<lambda>w. (Inr (mCPRemoteStorage w k), w))"

definition token_upsert ::
  "string \<times> string \<times> string \<Rightarrow> token_row \<Rightarrow> (token_row \<Rightarrow> token_row) \<Rightarrow> unit io" where
  "token_upsert k created update =
     roundTrip (\<lambda>w. (Inr (), w\<lparr>mCPRemoteToken := (mCPRemoteToken w)
        (k \<mapsto> (case mCPRemoteToken w k of None \<Rightarrow> created | Some r \<Rightarrow> update r))\<rparr>))"

definition clientInfo_upsert ::
  "string \<Rightarrow> clientinfo_row \<Rightarrow> (clientinfo_row \<Rightarrow> clientinfo_row) \<Rightarrow> unit io" where
  "clientInfo_upsert k created update =
     roundTrip (\<lambda>w. (Inr (), w\<lparr>mCPRemoteClientInfo := (mCPRemoteClientInfo w)
        (k \<mapsto> (case mCPRemoteClientInfo w k of None \<Rightarrow> created | Some r \<Rightarrow> update r))\<rparr>))"

definition storage_upsert ::
  "string \<times> string \<times> string \<Rightarrow> storage_row \<Rightarrow> (storage_row \<Rightarrow> storage_row) \<Rightarrow> unit io" where
  "storage_upsert k created update =
     roundTrip (\<lambda>w. (Inr (), w\<lparr>mCPRemoteStorage := (mCPRemoteStorage w)
        (k \<mapsto> (case mCPRemoteStorage w k of None \<Rightarrow> created | Some r \<Rightarrow> update r))\<rparr>))"

text \<open>Deleting a record that does not exist fails with code \<open>P2025\<close>.\<close>

definition token_delete :: "string \<times> string \<times> string \<Rightarrow> unit io" where
  "token_delete k =
     roundTrip (\<lambda>w. case mCPRemoteToken w k of
        None \<Rightarrow> (Inl (PrismaError ''P2025''), w)
      | Some r \<Rightarrow> (Inr (), w\<lparr>mCPRemoteToken := (mCPRemoteToken w)(k := None)\<rparr>))"

definition clientInfo_delete :: "string \<Rightarrow> unit io" where
  "clientInfo_delete k =
     roundTrip (\<lambda>w. case mCPRemoteClientInfo w k of
        None \<Rightarrow> (Inl (PrismaError ''P2025''), w)
      | Some r \<Rightarrow> (Inr (), w\<lparr>mCPRemoteClientInfo := (mCPRemoteClientInfo w)(k := None)\<rparr>))"

definition storage_delete :: "string \<times> string \<times> string \<Rightarrow> unit io" where
  "storage_delete k =
     roundTrip (\<lambda>w. case mCPRemoteStorage w k of
        None \<Rightarrow> (Inl (PrismaError ''P2025''), w)
      | Some r \<Rightarrow> (Inr (), w\<lparr>mCPRemoteStorage := (mCPRemoteStorage w)(k := None)\<rparr>))"

section \<open>encrypt and decrypt\<close>

text \<open>\<open>s.split(':')\<close>: one field more than there are colons, never an empty array.\<close>

fun split_colon :: "string \<Rightarrow> string list" where
  "split_colon [] = [[]]"
| "split_colon (c # cs) =
     (if c = CHR '':'' then [] # split_colon cs
      else (case split_colon cs of p # ps \<Rightarrow> (c # p) # ps | [] \<Rightarrow> [[c]]))"

text \<open>\<open>parts[i]\<close>: \<open>undefined\<close> past the end of the array.\<close>

definition index :: "'a list \<Rightarrow> nat \<Rightarrow> 'a option" where
  "index xs i = (if i < length xs then Some (xs ! i) else None)"

text \<open>\<open>Buffer.from(x, 'hex')\<close> throws a \<open>TypeError\<close> when \<open>x\<close> is \<open>undefined\<close>.\<close>

definition Buffer_from :: "lib \<Rightarrow> string option \<Rightarrow> error + bytes" where
  "Buffer_from L x =
     (case x of
        None \<Rightarrow> Inl (TypeError ''The first argument must be of type string or an instance of Buffer'')
      | Some s \<Rightarrow> Inr (Buffer_from_hex L s))"

text \<open>The initialisation vector \<open>iv\<close> is the draw of \<open>crypto.randomBytes(16)\<close>.\<close>

definition encrypt :: "lib \<Rightarrow> env \<Rightarrow> bytes \<Rightarrow> string \<Rightarrow> string \<Rightarrow> error + string" where
  "encrypt L E iv text userId =
     (let key = sha256 L (ENCRYPTION_KEY E @ userId)
      in bindE (gcm_encrypt L key iv text) (\<lambda>(encrypted, authTag).
           Inr (Buffer_toString_hex L iv @ '':'' @ Buffer_toString_hex L authTag
                  @ '':'' @ encrypted)))"

definition decrypt :: "lib \<Rightarrow> env \<Rightarrow> string \<Rightarrow> string \<Rightarrow> error + string" where
  "decrypt L E encryptedData userId =
     (let parts = split_colon encryptedData
      in bindE (Buffer_from L (index parts 0)) (\<lambda>iv.
         bindE (Buffer_from L (index parts 1)) (\<lambda>authTag.
         let encrypted = index parts 2;
             key = sha256 L (ENCRYPTION_KEY E @ userId)
         in case createDecipheriv L key iv of
              Some e \<Rightarrow> Inl e
            | None \<Rightarrow>
               (case setAuthTag L authTag of
                  Some e \<Rightarrow> Inl e
                | None \<Rightarrow>
                   (case encrypted of
                      None \<Rightarrow> Inl (TypeError ''The data argument must be of type string or an instance of Buffer'')
                    | Some c \<Rightarrow> decipher_update_final L key iv authTag c)))))"

section \<open>The cache\<close>

definition getCacheKey :: "DatabaseStorage \<Rightarrow> string \<Rightarrow> string \<Rightarrow> string" where
  "getCacheKey this serverUrlHash filename =
     this_userId this @ '':'' @ this_connectionId this @ '':'' @ serverUrlHash @ '':'' @ filename"

text \<open>
  \<open>getFromCache\<close> returns the cached data, or \<open>null\<close> after deleting the key; \<open>now\<close> is the
  reading of \<open>Date.now()\<close>.
\<close>

definition getFromCache :: "int \<Rightarrow> string \<Rightarrow> json io" where
  "getFromCache now k =
     (\<lambda>w. case cache w k of
        Some cached \<Rightarrow>
          if now - entry_timestamp cached < CACHE_TTL then (Inr (entry_data cached), w)
          else (Inr JNull, w\<lparr>cache := (cache w)(k := None)\<rparr>)
      | None \<Rightarrow> (Inr JNull, w\<lparr>cache := (cache w)(k := None)\<rparr>))"

definition setCache :: "int \<Rightarrow> string \<Rightarrow> json \<Rightarrow> unit io" where
  "setCache now k v =
     (\<lambda>w. (Inr (), w\<lparr>cache := (cache w)(k \<mapsto> \<lparr>entry_data = v, entry_timestamp = now\<rparr>)\<rparr>))"

definition cache_delete :: "string \<Rightarrow> unit io" where
  "cache_delete k = (\<lambda>w. (Inr (), w\<lparr>cache := (cache w)(k := None)\<rparr>))"

section \<open>The class DatabaseStorage\<close>

text \<open>
  \<open>readJson\<close>: the cache first; on \<open>null\<close> from the cache the \<open>try\<close> block, one branch per
  filename. The constant \<open>prisma\<close> is declared in the block of the \<open>tokens.json\<close> branch
  and nowhere else. The call is taken at one instant \<open>now\<close>: the reading of the clock
  at the cache lookup and the one at the cache fill are the same.
\<close>

definition readJson_try ::
  "lib \<Rightarrow> env \<Rightarrow> DatabaseStorage \<Rightarrow> int \<Rightarrow> string \<Rightarrow> string \<Rightarrow> json option io" where
  "readJson_try L E this now serverUrlHash filename =
     (let cacheKey = getCacheKey this serverUrlHash filename
      in if filename = ''tokens.json'' then
           bindIO (getPrismaClient E) (\<lambda>_.
           bindIO (resolveIdentifier readJson_tokens_scope ''prisma'') (\<lambda>_.
           bindIO (token_findUnique (this_userId this, this_connectionId this, serverUrlHash))
             (\<lambda>record.
                case record of
                  None \<Rightarrow> ret None
                | Some r \<Rightarrow>
                    bindIO (liftE (decrypt L E (tokenData r) (this_userId this))) (\<lambda>decrypted.
                    bindIO (liftE (JSON_parse L decrypted)) (\<lambda>dat.
                    bindIO (setCache now cacheKey dat) (\<lambda>_.
                    ret (Some dat)))))))
         else if filename = ''client_info.json'' then
           bindIO (resolveIdentifier readJson_client_scope ''prisma'') (\<lambda>_.
           bindIO (clientInfo_findUnique serverUrlHash)
             (\<lambda>record.
                case record of
                  None \<Rightarrow> ret None
                | Some r \<Rightarrow>
                    bindIO (liftE (JSON_parse L (clientData r))) (\<lambda>dat.
                    bindIO (setCache now cacheKey dat) (\<lambda>_.
                    ret (Some dat)))))
         else
           bindIO (resolveIdentifier readJson_scope ''prisma'') (\<lambda>_.
           bindIO (storage_findUnique
                     (this_userId this, this_connectionId this, serverUrlHash @ ''_'' @ filename))
             (\<lambda>record.
                case record of
                  None \<Rightarrow> ret None
                | Some r \<Rightarrow>
                    bindIO (liftE (JSON_parse L (rowValue r))) (\<lambda>dat.
                    bindIO (setCache now cacheKey dat) (\<lambda>_.
                    ret (Some dat))))))"

definition readJson_catch :: "string \<Rightarrow> error \<Rightarrow> json option io" where
  "readJson_catch filename err =
     bindIO (log (''Error reading '' @ filename @ '' from database:'') err) (\<lambda>_. ret None)"

definition readJson ::
  "lib \<Rightarrow> env \<Rightarrow> DatabaseStorage \<Rightarrow> int \<Rightarrow> string \<Rightarrow> string \<Rightarrow> json option io" where
  "readJson L E this now serverUrlHash filename =
     (let cacheKey = getCacheKey this serverUrlHash filename
      in bindIO (getFromCache now cacheKey) (\<lambda>cached.
           if cached \<noteq> JNull then ret (Some cached)
           else tryCatch (readJson_try L E this now serverUrlHash filename)
                         (readJson_catch filename)))"

text \<open>
  \<open>data.token_type\<close>: reading a property of \<open>null\<close> throws; an object has the property or
  not; the other JSON values have no such property.
\<close>

fun get_property :: "json \<Rightarrow> string \<Rightarrow> error + json option" where
  "get_property JNull name =
     Inl (TypeError (''Cannot read properties of null (reading '' @ name @ '')''))"
| "get_property (JObj kvs) name = Inr (map_of kvs name)"
| "get_property v name = Inr None"

text \<open>\<open>x || 'oauth'\<close>.\<close>

fun or_oauth :: "json option \<Rightarrow> json" where
  "or_oauth None = JStr ''oauth''"
| "or_oauth (Some v) = (if truthy v then v else JStr ''oauth'')"

text \<open>
  \<open>writeJson\<close>: in a call such as \<open>prisma.mCPRemoteToken.upsert({...})\<close> the callee is
  evaluated before the argument, so \<open>prisma\<close> is resolved before \<open>data.token_type\<close> is
  read. \<open>iv\<close> is the draw of \<open>randomBytes\<close> inside \<open>encrypt\<close>, \<open>now\<close> the reading of the
  clock (\<open>new Date()\<close>, \<open>Date.now()\<close>).
\<close>

definition writeJson_try ::
  "lib \<Rightarrow> env \<Rightarrow> DatabaseStorage \<Rightarrow> bytes \<Rightarrow> int \<Rightarrow> string \<Rightarrow> string \<Rightarrow> json \<Rightarrow> unit io" where
  "writeJson_try L E this iv now serverUrlHash filename dat =
     (let cacheKey = getCacheKey this serverUrlHash filename
      in if filename = ''tokens.json'' then
           bindIO (liftE (encrypt L E iv (JSON_stringify L dat) (this_userId this))) (\<lambda>encrypted.
           bindIO (resolveIdentifier writeJson_tokens_scope ''prisma'') (\<lambda>_.
           bindIO (liftE (get_property dat ''token_type'')) (\<lambda>token_type.
           bindIO (token_upsert (this_userId this, this_connectionId this, serverUrlHash)
                     \<lparr>serverUrl = [], tokenData = encrypted,
                      tokenType = or_oauth token_type, lastUpdated = None\<rparr>
                     (\<lambda>r. r\<lparr>tokenData := encrypted, lastUpdated := Some now\<rparr>)) (\<lambda>_.
           bindIO (setCache now cacheKey dat) (\<lambda>_.
           ret ())))))
         else if filename = ''client_info.json'' then
           bindIO (resolveIdentifier writeJson_scope ''prisma'') (\<lambda>_.
           bindIO (clientInfo_upsert serverUrlHash
                     \<lparr>clientData = JSON_stringify L dat, clientUpdatedAt = None\<rparr>
                     (\<lambda>r. r\<lparr>clientData := JSON_stringify L dat,
                             clientUpdatedAt := Some now\<rparr>)) (\<lambda>_.
           bindIO (setCache now cacheKey dat) (\<lambda>_.
           ret ())))
         else
           bindIO (resolveIdentifier writeJson_scope ''prisma'') (\<lambda>_.
           bindIO (storage_upsert
                     (this_userId this, this_connectionId this, serverUrlHash @ ''_'' @ filename)
                     \<lparr>rowValue = JSON_stringify L dat, rowUpdatedAt = None\<rparr>
                     (\<lambda>r. r\<lparr>rowValue := JSON_stringify L dat, rowUpdatedAt := Some now\<rparr>)) (\<lambda>_.
           setCache now cacheKey dat)))"

definition writeJson_catch :: "string \<Rightarrow> error \<Rightarrow> unit io" where
  "writeJson_catch filename err =
     bindIO (log (''Error writing '' @ filename @ '' to database:'') err) (\<lambda>_. throw err)"

definition writeJson ::
  "lib \<Rightarrow> env \<Rightarrow> DatabaseStorage \<Rightarrow> bytes \<Rightarrow> int \<Rightarrow> string \<Rightarrow> string \<Rightarrow> json \<Rightarrow> unit io" where
  "writeJson L E this iv now serverUrlHash filename dat =
     tryCatch (writeJson_try L E this iv now serverUrlHash filename dat)
              (writeJson_catch filename)"

text \<open>\<open>readText\<close> throws unless \<open>readJson\<close> gave a truthy string.\<close>

definition readText ::
  "lib \<Rightarrow> env \<Rightarrow> DatabaseStorage \<Rightarrow> int \<Rightarrow> string \<Rightarrow> string \<Rightarrow> string io" where
  "readText L E this now serverUrlHash filename =
     bindIO (readJson L E this now serverUrlHash filename) (\<lambda>dat.
       case dat of
         Some (JStr s) \<Rightarrow> if s \<noteq> [] then ret s else throw (Error (''Error reading '' @ filename))
       | _ \<Rightarrow> throw (Error (''Error reading '' @ filename)))"

definition writeText ::
  "lib \<Rightarrow> env \<Rightarrow> DatabaseStorage \<Rightarrow> bytes \<Rightarrow> int \<Rightarrow> string \<Rightarrow> string \<Rightarrow> string \<Rightarrow> unit io" where
  "writeText L E this iv now serverUrlHash filename text =
     writeJson L E this iv now serverUrlHash filename (JStr text)"

text \<open>
  \<open>delete\<close>: the cache entry goes first; the \<open>catch\<close> logs every error whose code is not
  \<open>P2025\<close> and rethrows none.
\<close>

definition delete_try :: "DatabaseStorage \<Rightarrow> string \<Rightarrow> string \<Rightarrow> unit io" where
  "delete_try this serverUrlHash filename =
     (if filename = ''tokens.json'' then
        bindIO (resolveIdentifier delete_scope ''prisma'') (\<lambda>_.
        token_delete (this_userId this, this_connectionId this, serverUrlHash))
      else if filename = ''client_info.json'' then
        bindIO (resolveIdentifier delete_scope ''prisma'') (\<lambda>_.
        clientInfo_delete serverUrlHash)
      else
        bindIO (resolveIdentifier delete_scope ''prisma'') (\<lambda>_.
        storage_delete
          (this_userId this, this_connectionId this, serverUrlHash @ ''_'' @ filename)))"

definition delete_catch :: "string \<Rightarrow> error \<Rightarrow> unit io" where
  "delete_catch filename err =
     (if error_code err \<noteq> Some ''P2025''
      then log (''Error deleting '' @ filename @ '':'') err
      else ret ())"

definition delete :: "DatabaseStorage \<Rightarrow> string \<Rightarrow> string \<Rightarrow> unit io" where
  "delete this serverUrlHash filename =
     (let cacheKey = getCacheKey this serverUrlHash filename
      in bindIO (cache_delete cacheKey) (\<lambda>_.
         tryCatch (delete_try this serverUrlHash filename) (delete_catch filename)))"

section \<open>The backend selector and the exported functions\<close>

text \<open>
  \<open>getStorage\<close>: \<open>null\<close> when a setting is falsy; otherwise the instance kept in
  \<open>storageInstance\<close>, constructed on the first call.
\<close>

definition getStorage :: "env \<Rightarrow> world \<Rightarrow> DatabaseStorage option \<times> world" where
  "getStorage E w =
     (if \<not> DB_MODE E \<or> \<not> str_truthy (USER_ID E) \<or> \<not> str_truthy (CONNECTION_ID E)
      then (None, w)
      else (case storageInstance w of
              Some inst \<Rightarrow> (Some inst, w)
            | None \<Rightarrow>
                (case (USER_ID E, CONNECTION_ID E) of
                   (Some u, Some c) \<Rightarrow>
                     (let inst = \<lparr>this_userId = u, this_connectionId = c,
                                  objId = constructed w\<rparr>
                      in (Some inst,
                          w\<lparr>storageInstance := Some inst, constructed := constructed w + 1\<rparr>))
                 | _ \<Rightarrow> (None, w))))"

text \<open>
  The file-based functions of \<open>mcp-auth-config\<close>, imported for the fallback, are a
  parameter: they work on the files and on nothing else of the world. So is the schema
  whose \<open>parseAsync\<close> validates a value read.
\<close>

type_synonym schema = "json \<Rightarrow> error + json"

record fallback =
  fileReadJsonFile :: "string \<Rightarrow> string \<Rightarrow> schema \<Rightarrow> fs \<Rightarrow> (error + json option) \<times> fs"
  fileWriteJsonFile :: "string \<Rightarrow> string \<Rightarrow> json \<Rightarrow> fs \<Rightarrow> (error + unit) \<times> fs"
  fileReadTextFile :: "string \<Rightarrow> string \<Rightarrow> string option \<Rightarrow> fs \<Rightarrow> (error + string) \<times> fs"
  fileWriteTextFile :: "string \<Rightarrow> string \<Rightarrow> string \<Rightarrow> fs \<Rightarrow> (error + unit) \<times> fs"

definition onFiles :: "(fs \<Rightarrow> (error + 'a) \<times> fs) \<Rightarrow> 'a io" where
  "onFiles f = (\<lambda>w. case f (files w) of (r, fs') \<Rightarrow> (r, w\<lparr>files := fs'\<rparr>))"

definition readJsonFile_catch :: "string \<Rightarrow> error \<Rightarrow> json option io" where
  "readJsonFile_catch filename err =
     bindIO (log (''Database read error for '' @ filename @ '':'') err) (\<lambda>_. ret None)"

definition readJsonFile ::
  "lib \<Rightarrow> env \<Rightarrow> fallback \<Rightarrow> int \<Rightarrow> string \<Rightarrow> string \<Rightarrow> schema \<Rightarrow> json option io" where
  "readJsonFile L E F now serverUrlHash filename schema =
     (\<lambda>w. case getStorage E w of
        (Some storage, w1) \<Rightarrow>
          tryCatch
            (bindIO (readJson L E storage now serverUrlHash filename) (\<lambda>dat.
               case dat of
                 None \<Rightarrow> ret None
               | Some d \<Rightarrow>
                   if \<not> truthy d then ret None
                   else bindIO (liftE (schema d)) (\<lambda>result. ret (Some result))))
            (readJsonFile_catch filename) w1
      | (None, w1) \<Rightarrow> onFiles (fileReadJsonFile F serverUrlHash filename schema) w1)"

definition writeJsonFile ::
  "lib \<Rightarrow> env \<Rightarrow> fallback \<Rightarrow> bytes \<Rightarrow> int \<Rightarrow> string \<Rightarrow> string \<Rightarrow> json \<Rightarrow> unit io" where
  "writeJsonFile L E F iv now serverUrlHash filename dat =
     (\<lambda>w. case getStorage E w of
        (Some storage, w1) \<Rightarrow> writeJson L E storage iv now serverUrlHash filename dat w1
      | (None, w1) \<Rightarrow> onFiles (fileWriteJsonFile F serverUrlHash filename dat) w1)"

text \<open>\<open>errorMessage || `Error reading ${filename}`\<close>.\<close>

definition readTextFile_message :: "string option \<Rightarrow> string \<Rightarrow> string" where
  "readTextFile_message errorMessage filename =
     (case errorMessage of
        Some m \<Rightarrow> if m \<noteq> [] then m else ''Error reading '' @ filename
      | None \<Rightarrow> ''Error reading '' @ filename)"

definition readTextFile ::
  "lib \<Rightarrow> env \<Rightarrow> fallback \<Rightarrow> int \<Rightarrow> string \<Rightarrow> string \<Rightarrow> string option \<Rightarrow> string io" where
  "readTextFile L E F now serverUrlHash filename errorMessage =
     (\<lambda>w. case getStorage E w of
        (Some storage, w1) \<Rightarrow>
          tryCatch (readText L E storage now serverUrlHash filename)
            (\<lambda>err. throw (Error (readTextFile_message errorMessage filename))) w1
      | (None, w1) \<Rightarrow> onFiles (fileReadTextFile F serverUrlHash filename errorMessage) w1)"

definition writeTextFile ::
  "lib \<Rightarrow> env \<Rightarrow> fallback \<Rightarrow> bytes \<Rightarrow> int \<Rightarrow> string \<Rightarrow> string \<Rightarrow> string \<Rightarrow> unit io" where
  "writeTextFile L E F iv now serverUrlHash filename text =
     (\<lambda>w. case getStorage E w of
        (Some storage, w1) \<Rightarrow> writeText L E storage iv now serverUrlHash filename text w1
      | (None, w1) \<Rightarrow> onFiles (fileWriteTextFile F serverUrlHash filename text) w1)"

section \<open>A stand-in library for concrete runs\<close>

text \<open>
  The theorems below hold for every library. Runs on concrete inputs need one: hexadecimal
  coding as \<open>Buffer\<close> does it (decoding stops at the first pair that is not two hex
  digits), a one-byte checksum in the place of SHA-256, a cipher that leaves the text
  readable and authenticates it with a tag computed from key, IV and text, and
  \<open>JSON.parse\<close> and \<open>JSON.stringify\<close> on the handful of documents the runs use.
\<close>

definition hexval :: "char \<Rightarrow> nat option" where
  "hexval c =
     (let n = (of_char c :: nat)
      in if 48 \<le> n \<and> n \<le> 57 then Some (n - 48)
         else if 97 \<le> n \<and> n \<le> 102 then Some (n - 87)
         else if 65 \<le> n \<and> n \<le> 70 then Some (n - 55)
         else None)"

fun hex_decode :: "string \<Rightarrow> bytes" where
  "hex_decode (a # b # cs) =
     (case (hexval a, hexval b) of
        (Some x, Some y) \<Rightarrow> of_nat (16 * x + y) # hex_decode cs
      | _ \<Rightarrow> [])"
| "hex_decode cs = []"

definition hexdigit :: "nat \<Rightarrow> char" where
  "hexdigit n = ''0123456789abcdef'' ! n"

definition hex_encode :: "bytes \<Rightarrow> string" where
  "hex_encode bs =
     concat (map (\<lambda>b. [hexdigit (unat b div 16), hexdigit (unat b mod 16)]) bs)"

definition byte_of_char :: "char \<Rightarrow> 8 word" where
  "byte_of_char c = of_nat (of_char c)"

definition char_of_byte :: "8 word \<Rightarrow> char" where
  "char_of_byte b = char_of (unat b)"

definition standin_tag :: "bytes \<Rightarrow> bytes \<Rightarrow> bytes \<Rightarrow> bytes" where
  "standin_tag key iv bs = [sum_list key + sum_list iv + sum_list bs]"

definition standin_documents :: "(string \<times> json) list" where
  \<open>standin_documents =
     [(''null'', JNull),
      (''false'', JBool False),
      (''0'', JNum 0),
      ([CHR 0x22, CHR 0x22], JStr []),
      ([CHR 0x22, CHR ''t'', CHR 0x22], JStr ''t''),
      (''{}'', JObj []),
      (''{"access_token":"t","token_type":"bearer"}'',
       JObj [(''access_token'', JStr ''t''), (''token_type'', JStr ''bearer'')])]\<close>

definition standin_lib :: lib where
  "standin_lib =
     \<lparr>JSON_parse = (\<lambda>s. case map_of standin_documents s of
                          Some v \<Rightarrow> Inr v
                        | None \<Rightarrow> Inl (SyntaxError ''Unexpected token'')),
      JSON_stringify = (\<lambda>v. case map_of (map (\<lambda>(s, d). (d, s)) standin_documents) v of
                          Some s \<Rightarrow> s
                        | None \<Rightarrow> ''{}''),
      Buffer_from_hex = hex_decode,
      Buffer_toString_hex = hex_encode,
      sha256 = (\<lambda>s. [sum_list (map byte_of_char s)]),
      gcm_encrypt = (\<lambda>key iv text.
                       Inr (hex_encode (map byte_of_char text),
                            standin_tag key iv (map byte_of_char text))),
      createDecipheriv = (\<lambda>key iv.
                       if iv = [] then Some (LibError ''Invalid initialization vector'')
                       else None),
      setAuthTag = (\<lambda>tag.
                       if tag = [] then Some (LibError ''Invalid authentication tag length'')
                       else None),
      decipher_update_final = (\<lambda>key iv tag c.
                       if tag = standin_tag key iv (hex_decode c)
                       then Inr (map char_of_byte (hex_decode c))
                       else Inl (LibError ''Unsupported state or unable to authenticate data''))\<rparr>"

text \<open>
  Tenant \<open>("u1", "c1")\<close> in durable mode, with the shared secret left at its default, and
  a world in which nothing has happened yet.
\<close>

definition durable_env :: env where
  "durable_env =
     \<lparr>env_ENCRYPTION_KEY = None,
      env_MCP_STORAGE_TYPE = Some ''database'',
      env_MCP_USER_ID = Some ''u1'',
      env_MCP_CONNECTION_ID = Some ''c1'',
      env_DATABASE_URL = Some ''postgres://db''\<rparr>"

definition u1c1 :: DatabaseStorage where
  "u1c1 = \<lparr>this_userId = ''u1'', this_connectionId = ''c1'', objId = 0\<rparr>"

definition fresh_world :: world where
  "fresh_world =
     \<lparr>mCPRemoteToken = Map.empty,
      mCPRemoteClientInfo = Map.empty,
      mCPRemoteStorage = Map.empty,
      dbFault = None,
      roundTrips = 0,
      cache = Map.empty,
      storageInstance = None,
      prisma = None,
      constructed = 0,
      logged = [],
      files = Map.empty\<rparr>"

definition zero_iv :: bytes where
  "zero_iv = replicate 16 0"

text \<open>The world once \<open>getStorage\<close> has constructed the instance of the tenant.\<close>

definition started_world :: world where
  "started_world = fresh_world\<lparr>storageInstance := Some u1c1, constructed := 1\<rparr>"

text \<open>A token record of tenant \<open>u1\<close> for server \<open>abc\<close> holding \<open>tokenData\<close>.\<close>

definition world_with_token :: "string \<Rightarrow> world" where
  "world_with_token td =
     started_world\<lparr>mCPRemoteToken :=
       [(''u1'', ''c1'', ''abc'') \<mapsto>
          \<lparr>serverUrl = [], tokenData = td, tokenType = JStr ''oauth'', lastUpdated = None\<rparr>]\<rparr>"

text \<open>A schema that accepts nothing, and a fallback whose functions find no file.\<close>

definition rejecting_schema :: schema where
  "rejecting_schema d = Inl (Error ''invalid'')"

definition no_files :: fallback where
  "no_files =
     \<lparr>fileReadJsonFile = (\<lambda>h f s fs. (Inr None, fs)),
      fileWriteJsonFile = (\<lambda>h f d fs. (Inr (), fs)),
      fileReadTextFile = (\<lambda>h f m fs. (Inl (Error ''no file''), fs)),
      fileWriteTextFile = (\<lambda>h f t fs. (Inr (), fs))\<rparr>"

text \<open>A generic record of tenant \<open>u1\<close>: the text \<open>"t"\<close> under \<open>code_verifier.txt\<close>.\<close>

definition world_with_verifier :: world where
  "world_with_verifier =
     started_world\<lparr>mCPRemoteStorage :=
       [(''u1'', ''c1'', ''abc_code_verifier.txt'') \<mapsto>
          \<lparr>rowValue = [CHR 0x22, CHR ''t'', CHR 0x22], rowUpdatedAt = None\<rparr>]\<rparr>"

text \<open>
  The world after one read of a token record that holds the encryption of \<open>null\<close>: the
  client is constructed, one round trip was made, and \<open>null\<close> is cached at time 1000.
\<close>

definition null_cached_world :: world where
  "null_cached_world =
     (world_with_token ''00000000000000000000000000000000:33:6e756c6c'')
       \<lparr>prisma := Some ''postgres://db'', roundTrips := 1,
        cache := [getCacheKey u1c1 ''abc'' ''tokens.json'' \<mapsto>
                    \<lparr>entry_data = JNull, entry_timestamp = 1000\<rparr>]\<rparr>"

text \<open>The same after one read of a token record that holds the encryption of \<open>"t"\<close>.\<close>

definition t_cached_world :: world where
  "t_cached_world =
     (world_with_token ''00000000000000000000000000000000:30:227422'')
       \<lparr>prisma := Some ''postgres://db'', roundTrips := 1,
        cache := [getCacheKey u1c1 ''abc'' ''tokens.json'' \<mapsto>
                    \<lparr>entry_data = JStr ''t'', entry_timestamp = 1000\<rparr>]\<rparr>"

text \<open>
  A process makes calls on the exported functions, one after the other; \<open>exec\<close> is the
  world a call leaves.
\<close>

datatype call =
    ReadJsonFile int string string schema
  | WriteJsonFile bytes int string string json
  | ReadTextFile int string string "string option"
  | WriteTextFile bytes int string string string

fun exec :: "lib \<Rightarrow> env \<Rightarrow> fallback \<Rightarrow> call \<Rightarrow> world \<Rightarrow> world" where
  "exec L E F (ReadJsonFile now h f sch) w = snd (readJsonFile L E F now h f sch w)"
| "exec L E F (WriteJsonFile iv now h f dat) w = snd (writeJsonFile L E F iv now h f dat w)"
| "exec L E F (ReadTextFile now h f msg) w = snd (readTextFile L E F now h f msg w)"
| "exec L E F (WriteTextFile iv now h f txt) w = snd (writeTextFile L E F iv now h f txt w)"

text \<open>A computation that leaves \<open>storageInstance\<close> alone and constructs no instance.\<close>

definition keeps_instance :: "'a io \<Rightarrow> bool" where
  "keeps_instance m =
     (\<forall>w. storageInstance (snd (m w)) = storageInstance w \<and>
          constructed (snd (m w)) = constructed w)"

text \<open>The environment of the fallback: no storage mode is set.\<close>

definition file_env :: env where
  "file_env =
     \<lparr>env_ENCRYPTION_KEY = None,
      env_MCP_STORAGE_TYPE = None,
      env_MCP_USER_ID = Some ''u1'',
      env_MCP_CONNECTION_ID = Some ''c1'',
      env_DATABASE_URL = None\<rparr>"

text \<open>The token object of the scenario in the specification.\<close>

definition bearer_token :: json where
  "bearer_token = JObj [(''access_token'', JStr ''t''), (''token_type'', JStr ''bearer'')]"

text \<open>
  The world in which \<open>"t"\<close> was cached at time 1000 and the token record has since been
  replaced by the encryption of \<open>false\<close>.
\<close>

definition stale_world :: world where
  "stale_world =
     t_cached_world\<lparr>mCPRemoteToken :=
       [(''u1'', ''c1'', ''abc'') \<mapsto>
          \<lparr>serverUrl = [], tokenData = ''00000000000000000000000000000000:83:66616c7365'',
           tokenType = JStr ''oauth'', lastUpdated = None\<rparr>]\<rparr>"

text \<open>
  The worlds a process can be in. It starts with an empty cache and no client. It then
  calls the methods of the class (\<open>readText\<close> and \<open>writeText\<close> leave the worlds of
  \<open>readJson\<close> and \<open>writeJson\<close>), the exported functions and the two functions of the
  client module (\<open>disconnectPrisma\<close> resets \<open>prisma\<close>), in any order; meanwhile the record
  store changes as other writers and its own failures have it.
\<close>

inductive reachable :: "lib \<Rightarrow> env \<Rightarrow> world \<Rightarrow> bool" for L :: lib and E :: env where
  start: "cache w = Map.empty \<Longrightarrow> prisma w = None \<Longrightarrow> reachable L E w"
| readJson_step: "reachable L E w \<Longrightarrow> reachable L E (snd (readJson L E this now h f w))"
| writeJson_step:
    "reachable L E w \<Longrightarrow> reachable L E (snd (writeJson L E this iv now h f dat w))"
| delete_step: "reachable L E w \<Longrightarrow> reachable L E (snd (delete this h f w))"
| exported_step: "reachable L E w \<Longrightarrow> reachable L E (exec L E F c w)"
| client_step: "reachable L E w \<Longrightarrow> reachable L E (snd (getPrismaClient E w))"
| disconnect_step: "reachable L E w \<Longrightarrow> reachable L E (w\<lparr>prisma := None\<rparr>)"
| store_step:
    "reachable L E w \<Longrightarrow>
     reachable L E (w\<lparr>mCPRemoteToken := t, mCPRemoteClientInfo := c,
                      mCPRemoteStorage := s, dbFault := d\<rparr>)"

text \<open>
  What holds in all of them: a client was constructed, and a value cached, only with
  \<open>DATABASE_URL\<close> set, and only under the key of a \<open>tokens.json\<close> address.
\<close>

definition cache_inv :: "env \<Rightarrow> world \<Rightarrow> bool" where
  "cache_inv E w =
     ((prisma w \<noteq> None \<longrightarrow> str_truthy (env_DATABASE_URL E)) \<and>
      (\<forall>k. cache w k \<noteq> None \<longrightarrow>
         str_truthy (env_DATABASE_URL E) \<and>
         (\<exists>this h. k = getCacheKey this h ''tokens.json'')))"





section \<open>Basic facts\<close>

subsection \<open>Where \<open>prisma\<close> is bound\<close>

lemma prisma_not_in_module_scope: "''prisma'' \<notin> set module_scope"
  by (simp add: module_scope_def)

lemma prisma_unbound:
  "''prisma'' \<notin> set readJson_scope"
  "''prisma'' \<notin> set readJson_client_scope"
  "''prisma'' \<notin> set writeJson_scope"
  "''prisma'' \<notin> set writeJson_tokens_scope"
  "''prisma'' \<notin> set delete_scope"
  using prisma_not_in_module_scope
  by (simp_all add: readJson_scope_def readJson_client_scope_def writeJson_scope_def
        writeJson_tokens_scope_def delete_scope_def)

lemma prisma_bound: "''prisma'' \<in> set readJson_tokens_scope"
  by (simp add: readJson_tokens_scope_def)

lemma resolve_unbound:
  "name \<notin> set scope \<Longrightarrow>
   resolveIdentifier scope name w = (Inl (ReferenceError (name @ '' is not defined'')), w)"
  by (simp add: resolveIdentifier_def throw_def)

lemma resolve_bound: "name \<in> set scope \<Longrightarrow> resolveIdentifier scope name w = (Inr (), w)"
  by (simp add: resolveIdentifier_def ret_def)

text \<open>The three \<open>try\<close> blocks, up to the first use of \<open>prisma\<close>.\<close>

lemma writeJson_try_result:
  "writeJson_try L E this iv now h f dat w =
     (if f = ''tokens.json'' then
        (case encrypt L E iv (JSON_stringify L dat) (this_userId this) of
           Inl e \<Rightarrow> (Inl e, w)
         | Inr c \<Rightarrow> (Inl (ReferenceError ''prisma is not defined''), w))
      else (Inl (ReferenceError ''prisma is not defined''), w))"
  by (simp add: writeJson_try_def Let_def if_distribR bindIO_def liftE_def resolve_unbound
        prisma_unbound split: sum.splits)

lemma delete_try_result:
  "delete_try this h f w = (Inl (ReferenceError ''prisma is not defined''), w)"
  by (simp add: delete_try_def if_distribR bindIO_def resolve_unbound prisma_unbound)

lemma readJson_try_other:
  "f \<noteq> ''tokens.json'' \<Longrightarrow>
   readJson_try L E this now h f w = (Inl (ReferenceError ''prisma is not defined''), w)"
  by (simp add: readJson_try_def Let_def if_distribR bindIO_def resolve_unbound prisma_unbound)

lemma writeJson_result:
  "writeJson L E this iv now h f dat w =
     (let e = (if f = ''tokens.json'' then
                 (case encrypt L E iv (JSON_stringify L dat) (this_userId this) of
                    Inl e \<Rightarrow> e
                  | Inr c \<Rightarrow> ReferenceError ''prisma is not defined'')
               else ReferenceError ''prisma is not defined'')
      in (Inl e, w\<lparr>logged := logged w @ [(''Error writing '' @ f @ '' to database:'', e)]\<rparr>))"
  by (simp add: writeJson_def tryCatch_def writeJson_try_result writeJson_catch_def
        bindIO_def log_def throw_def Let_def split: sum.splits)

lemma delete_result:
  "delete this h f w =
     (Inr (), w\<lparr>cache := (cache w)(getCacheKey this h f := None),
                logged := logged w @
                  [(''Error deleting '' @ f @ '':'', ReferenceError ''prisma is not defined'')]\<rparr>)"
  by (simp add: delete_def Let_def bindIO_def cache_delete_def tryCatch_def delete_try_result
        delete_catch_def log_def)

subsection \<open>The shape of \<open>readJson\<close>\<close>

lemma getFromCache_total: "\<exists>c w1. getFromCache now k w = (Inr c, w1)"
  by (simp add: getFromCache_def split: option.splits)

lemma readJson_unfold:
  "getFromCache now (getCacheKey this h f) w = (Inr c, w1) \<Longrightarrow>
   readJson L E this now h f w =
     (if c \<noteq> JNull then (Inr (Some c), w1)
      else (case readJson_try L E this now h f w1 of
              (Inl e, w2) \<Rightarrow>
                (Inr None,
                 w2\<lparr>logged := logged w2 @ [(''Error reading '' @ f @ '' from database:'', e)]\<rparr>)
            | (Inr v, w2) \<Rightarrow> (Inr v, w2)))"
  by (simp add: readJson_def Let_def bindIO_def ret_def tryCatch_def readJson_catch_def log_def
        split: prod.splits sum.splits)

section \<open>The unbound record-store handle\<close>

text \<open>
  Claim C2. The constant \<open>prisma\<close> is bound (to the result of \<open>getPrismaClient\<close>) in the
  \<open>tokens.json\<close> block of \<open>readJson\<close> and in no other scope. So \<open>writeJson\<close> throws for
  every filename, and the world it leaves differs from the one it found by a log line
  only: no table has changed and no round trip was made. A \<open>readJson\<close> that gets \<open>null\<close>
  from the cache returns \<open>undefined\<close> for every filename but \<open>tokens.json\<close>, having logged
  the \<open>ReferenceError\<close>. And \<open>delete\<close> completes normally, having removed the cache entry
  and logged the \<open>ReferenceError\<close>, with every table as it was.
\<close>

theorem prisma_unbound_outside_readJson_tokens:
  "''prisma'' \<in> set readJson_tokens_scope \<and>
   ''prisma'' \<notin> set readJson_client_scope \<and> ''prisma'' \<notin> set readJson_scope \<and>
   ''prisma'' \<notin> set writeJson_tokens_scope \<and> ''prisma'' \<notin> set writeJson_scope \<and>
   ''prisma'' \<notin> set delete_scope \<and>
   (\<exists>e. writeJson L E this iv now h f dat w =
          (Inl e, w\<lparr>logged := logged w @ [(''Error writing '' @ f @ '' to database:'', e)]\<rparr>)) \<and>
   (f \<noteq> ''tokens.json'' \<and> getFromCache now (getCacheKey this h f) w = (Inr JNull, w1) \<longrightarrow>
      readJson L E this now h f w =
        (Inr None,
         w1\<lparr>logged := logged w1 @
               [(''Error reading '' @ f @ '' from database:'',
                 ReferenceError ''prisma is not defined'')]\<rparr>)) \<and>
   delete this h f w =
     (Inr (), w\<lparr>cache := (cache w)(getCacheKey this h f := None),
                logged := logged w @
                  [(''Error deleting '' @ f @ '':'', ReferenceError ''prisma is not defined'')]\<rparr>)"
proof -
  have scopes:
    "''prisma'' \<in> set readJson_tokens_scope \<and>
     ''prisma'' \<notin> set readJson_client_scope \<and> ''prisma'' \<notin> set readJson_scope \<and>
     ''prisma'' \<notin> set writeJson_tokens_scope \<and> ''prisma'' \<notin> set writeJson_scope \<and>
     ''prisma'' \<notin> set delete_scope"
    by (simp add: prisma_bound prisma_unbound)
  have wr: "\<exists>e. writeJson L E this iv now h f dat w =
          (Inl e, w\<lparr>logged := logged w @ [(''Error writing '' @ f @ '' to database:'', e)]\<rparr>)"
    by (simp add: writeJson_result Let_def)
  have rd: "f \<noteq> ''tokens.json'' \<and> getFromCache now (getCacheKey this h f) w = (Inr JNull, w1) \<longrightarrow>
      readJson L E this now h f w =
        (Inr None,
         w1\<lparr>logged := logged w1 @
               [(''Error reading '' @ f @ '' from database:'',
                 ReferenceError ''prisma is not defined'')]\<rparr>)"
    by (simp add: readJson_unfold readJson_try_other)
  show ?thesis
    using scopes wr rd delete_result by blast
qed

lemma miss_in_world_with_verifier:
  "getFromCache 1000 (getCacheKey u1c1 ''abc'' ''code_verifier.txt'') world_with_verifier =
     (Inr JNull, world_with_verifier)"
  by (simp add: getFromCache_def world_with_verifier_def started_world_def fresh_world_def)

theorem prisma_unbound_outside_readJson_tokens_witness:
  "''code_verifier.txt'' \<noteq> ''tokens.json'' \<and>
   getFromCache 1000 (getCacheKey u1c1 ''abc'' ''code_verifier.txt'') world_with_verifier =
     (Inr JNull, world_with_verifier) \<and>
   mCPRemoteStorage world_with_verifier (''u1'', ''c1'', ''abc_code_verifier.txt'') \<noteq> None \<and>
   fst (readJson standin_lib durable_env u1c1 1000 ''abc'' ''code_verifier.txt''
          world_with_verifier) = Inr None \<and>
   isl (fst (writeJson standin_lib durable_env u1c1 zero_iv 1000 ''abc'' ''code_verifier.txt''
               (JStr ''t'') world_with_verifier)) \<and>
   roundTrips (snd (writeJson standin_lib durable_env u1c1 zero_iv 1000 ''abc''
                      ''code_verifier.txt'' (JStr ''t'') world_with_verifier)) = 0 \<and>
   fst (delete u1c1 ''abc'' ''code_verifier.txt'' world_with_verifier) = Inr () \<and>
   mCPRemoteStorage (snd (delete u1c1 ''abc'' ''code_verifier.txt'' world_with_verifier))
     (''u1'', ''c1'', ''abc_code_verifier.txt'') \<noteq> None"
proof -
  have stored:
    "mCPRemoteStorage world_with_verifier (''u1'', ''c1'', ''abc_code_verifier.txt'') \<noteq> None"
    by (simp add: world_with_verifier_def)
  have fresh: "roundTrips world_with_verifier = 0"
    by (simp add: world_with_verifier_def started_world_def fresh_world_def)
  note run = prisma_unbound_outside_readJson_tokens
    [where L = standin_lib and E = durable_env and this = u1c1 and iv = zero_iv
       and now = 1000 and h = "''abc''" and f = "''code_verifier.txt''" and dat = "JStr ''t''"
       and w = world_with_verifier and ?w1.0 = world_with_verifier]
  from run miss_in_world_with_verifier stored fresh show ?thesis
    by auto
qed

subsection \<open>The \<open>tokens.json\<close> branch of \<open>readJson\<close>\<close>

lemma token_findUnique_apply:
  "token_findUnique k w =
     (case dbFault w of
        Some e \<Rightarrow> (Inl e, w\<lparr>roundTrips := roundTrips w + 1\<rparr>)
      | None \<Rightarrow> (Inr (mCPRemoteToken w k), w\<lparr>roundTrips := roundTrips w + 1\<rparr>))"
  by (simp add: token_findUnique_def roundTrip_def Let_def split: option.splits)

lemma readJson_try_tokens:
  "getPrismaClient E w = (Inr (), wp) \<Longrightarrow>
   readJson_try L E this now h ''tokens.json'' w =
     (let w1 = wp\<lparr>roundTrips := roundTrips wp + 1\<rparr>
      in case dbFault wp of
           Some e \<Rightarrow> (Inl e, w1)
         | None \<Rightarrow>
            (case mCPRemoteToken wp (this_userId this, this_connectionId this, h) of
               None \<Rightarrow> (Inr None, w1)
             | Some r \<Rightarrow>
                (case decrypt L E (tokenData r) (this_userId this) of
                   Inl e \<Rightarrow> (Inl e, w1)
                 | Inr s \<Rightarrow>
                    (case JSON_parse L s of
                       Inl e \<Rightarrow> (Inl e, w1)
                     | Inr d \<Rightarrow>
                        (Inr (Some d),
                         w1\<lparr>cache := (cache w1)(getCacheKey this h ''tokens.json'' \<mapsto>
                               \<lparr>entry_data = d, entry_timestamp = now\<rparr>)\<rparr>)))))"
  by (simp add: readJson_try_def Let_def bindIO_def resolve_bound prisma_bound
        token_findUnique_apply liftE_def setCache_def ret_def
        split: option.splits sum.splits)

lemma readJson_returns: "\<exists>v. fst (readJson L E this now h f w) = Inr v"
proof -
  obtain c w1 where gc: "getFromCache now (getCacheKey this h f) w = (Inr c, w1)"
    using getFromCache_total by blast
  show ?thesis
    by (cases "readJson_try L E this now h f w1")
       (auto simp: readJson_unfold [OF gc] split: sum.splits)
qed

lemma readJson_try_raises:
  "getFromCache now (getCacheKey this h f) w = (Inr JNull, w1) \<Longrightarrow>
   readJson_try L E this now h f w1 = (Inl e, w2) \<Longrightarrow>
   readJson L E this now h f w =
     (Inr None, w2\<lparr>logged := logged w2 @ [(''Error reading '' @ f @ '' from database:'', e)]\<rparr>)"
  by (simp add: readJson_unfold)

subsection \<open>The exported \<open>readJsonFile\<close> in durable mode\<close>

lemma readJsonFile_durable:
  "getStorage E w = (Some st, ws) \<Longrightarrow>
   readJsonFile L E F now h f schema w =
     (case readJson L E st now h f ws of
        (Inl e, w3) \<Rightarrow>
          (Inr None, w3\<lparr>logged := logged w3 @ [(''Database read error for '' @ f @ '':'', e)]\<rparr>)
      | (Inr None, w3) \<Rightarrow> (Inr None, w3)
      | (Inr (Some d), w3) \<Rightarrow>
          (if \<not> truthy d then (Inr None, w3)
           else (case schema d of
                   Inl e \<Rightarrow>
                     (Inr None,
                      w3\<lparr>logged := logged w3 @ [(''Database read error for '' @ f @ '':'', e)]\<rparr>)
                 | Inr result \<Rightarrow> (Inr (Some result), w3))))"
  by (simp add: readJsonFile_def tryCatch_def bindIO_def ret_def liftE_def
        readJsonFile_catch_def log_def split: prod.splits sum.splits option.splits)

subsection \<open>Runs on the world with a token record\<close>

lemma miss_in_world_with_token:
  "getFromCache now (getCacheKey u1c1 ''abc'' ''tokens.json'') (world_with_token td) =
     (Inr JNull, world_with_token td)"
  by (simp add: getFromCache_def world_with_token_def started_world_def fresh_world_def)

lemma client_in_world_with_token:
  "getPrismaClient durable_env (world_with_token td) =
     (Inr (), (world_with_token td)\<lparr>prisma := Some ''postgres://db''\<rparr>)"
  by (simp add: getPrismaClient_def world_with_token_def started_world_def fresh_world_def
        durable_env_def)

lemma readJson_try_world_with_token:
  "readJson_try standin_lib durable_env u1c1 now ''abc'' ''tokens.json'' (world_with_token td) =
     (let w1 = (world_with_token td)\<lparr>prisma := Some ''postgres://db'', roundTrips := 1\<rparr>
      in case decrypt standin_lib durable_env td ''u1'' of
           Inl e \<Rightarrow> (Inl e, w1)
         | Inr s \<Rightarrow>
            (case JSON_parse standin_lib s of
               Inl e \<Rightarrow> (Inl e, w1)
             | Inr d \<Rightarrow>
                (Inr (Some d),
                 w1\<lparr>cache := [getCacheKey u1c1 ''abc'' ''tokens.json'' \<mapsto>
                                 \<lparr>entry_data = d, entry_timestamp = now\<rparr>]\<rparr>)))"
  by (simp add: readJson_try_tokens [OF client_in_world_with_token] Let_def)
     (simp add: world_with_token_def started_world_def fresh_world_def u1c1_def
        split: sum.splits)

lemma readJson_world_with_token:
  "readJson standin_lib durable_env u1c1 now ''abc'' ''tokens.json'' (world_with_token td) =
     (let w1 = (world_with_token td)\<lparr>prisma := Some ''postgres://db'', roundTrips := 1\<rparr>;
          failed = (\<lambda>e. (Inr None,
                     w1\<lparr>logged := [(''Error reading tokens.json from database:'', e)]\<rparr>))
      in case decrypt standin_lib durable_env td ''u1'' of
           Inl e \<Rightarrow> failed e
         | Inr s \<Rightarrow>
            (case JSON_parse standin_lib s of
               Inl e \<Rightarrow> failed e
             | Inr d \<Rightarrow>
                (Inr (Some d),
                 w1\<lparr>cache := [getCacheKey u1c1 ''abc'' ''tokens.json'' \<mapsto>
                                 \<lparr>entry_data = d, entry_timestamp = now\<rparr>]\<rparr>)))"
  by (simp add: readJson_unfold [OF miss_in_world_with_token] readJson_try_world_with_token
        Let_def split: sum.splits)
     (simp add: world_with_token_def started_world_def fresh_world_def)

lemma getStorage_world_with_token:
  "getStorage durable_env (world_with_token td) = (Some u1c1, world_with_token td)"
  by (simp add: getStorage_def durable_env_def DB_MODE_def USER_ID_def CONNECTION_ID_def
        world_with_token_def started_world_def fresh_world_def)

lemma standin_decrypt_garbage:
  "decrypt standin_lib durable_env ''zz'' ''u1'' =
     Inl (TypeError ''The first argument must be of type string or an instance of Buffer'')"
  by code_simp

lemma standin_decrypt_t:
  "decrypt standin_lib durable_env ''00000000000000000000000000000000:30:227422'' ''u1'' =
     Inr [CHR 0x22, CHR ''t'', CHR 0x22]"
  by code_simp

lemma standin_parse_t:
  "JSON_parse standin_lib [CHR 0x22, CHR ''t'', CHR 0x22] = Inr (JStr ''t'')"
  by (simp add: standin_lib_def standin_documents_def)

section \<open>Reads are fail-soft\<close>

text \<open>
  Claim C5. \<open>readJson\<close> never throws: it returns a value or \<open>undefined\<close> on every input.
  Whatever the \<open>try\<close> block raises is logged and turned into \<open>undefined\<close>; in the
  \<open>tokens.json\<close> branch that covers a failed fetch, a failed decryption and a failed
  \<open>JSON.parse\<close> alike, so a corrupted record reads as a missing one. The exported
  \<open>readJsonFile\<close> in durable mode does not throw either, and a value the schema rejects
  is logged and read as \<open>undefined\<close>.
\<close>

theorem readJson_never_throws:
  "(\<exists>v. fst (readJson L E this now h f w) = Inr v) \<and>
   (getFromCache now (getCacheKey this h f) w = (Inr JNull, w1) \<and>
    readJson_try L E this now h f w1 = (Inl e, w2) \<longrightarrow>
      readJson L E this now h f w =
        (Inr None,
         w2\<lparr>logged := logged w2 @ [(''Error reading '' @ f @ '' from database:'', e)]\<rparr>)) \<and>
   (getPrismaClient E w1 = (Inr (), wp) \<and>
    (dbFault wp = Some e \<or>
     dbFault wp = None \<and>
     (\<exists>r. mCPRemoteToken wp (this_userId this, this_connectionId this, h) = Some r \<and>
          (decrypt L E (tokenData r) (this_userId this) = Inl e \<or>
           (\<exists>s. decrypt L E (tokenData r) (this_userId this) = Inr s \<and>
                JSON_parse L s = Inl e)))) \<longrightarrow>
      readJson_try L E this now h ''tokens.json'' w1 =
        (Inl e, wp\<lparr>roundTrips := roundTrips wp + 1\<rparr>)) \<and>
   (getStorage E w = (Some st, ws) \<longrightarrow>
      (\<exists>v. fst (readJsonFile L E F now h f schema w) = Inr v)) \<and>
   (getStorage E w = (Some st, ws) \<and>
    readJson L E st now h f ws = (Inr (Some d), w3) \<and> truthy d \<and> schema d = Inl e \<longrightarrow>
      readJsonFile L E F now h f schema w =
        (Inr None,
         w3\<lparr>logged := logged w3 @ [(''Database read error for '' @ f @ '':'', e)]\<rparr>))"
proof (intro conjI impI)
  show "\<exists>v. fst (readJson L E this now h f w) = Inr v"
    by (rule readJson_returns)
next
  assume "getFromCache now (getCacheKey this h f) w = (Inr JNull, w1) \<and>
          readJson_try L E this now h f w1 = (Inl e, w2)"
  then show "readJson L E this now h f w =
        (Inr None,
         w2\<lparr>logged := logged w2 @ [(''Error reading '' @ f @ '' from database:'', e)]\<rparr>)"
    by (simp add: readJson_try_raises)
next
  assume a: "getPrismaClient E w1 = (Inr (), wp) \<and>
    (dbFault wp = Some e \<or>
     dbFault wp = None \<and>
     (\<exists>r. mCPRemoteToken wp (this_userId this, this_connectionId this, h) = Some r \<and>
          (decrypt L E (tokenData r) (this_userId this) = Inl e \<or>
           (\<exists>s. decrypt L E (tokenData r) (this_userId this) = Inr s \<and>
                JSON_parse L s = Inl e))))"
  then have "getPrismaClient E w1 = (Inr (), wp)"
    by simp
  from readJson_try_tokens [OF this] a
  show "readJson_try L E this now h ''tokens.json'' w1 =
        (Inl e, wp\<lparr>roundTrips := roundTrips wp + 1\<rparr>)"
    by (auto simp: Let_def)
next
  assume "getStorage E w = (Some st, ws)"
  then show "\<exists>v. fst (readJsonFile L E F now h f schema w) = Inr v"
    by (auto simp: readJsonFile_durable split: prod.splits sum.splits option.splits)
next
  assume "getStorage E w = (Some st, ws) \<and>
    readJson L E st now h f ws = (Inr (Some d), w3) \<and> truthy d \<and> schema d = Inl e"
  then show "readJsonFile L E F now h f schema w =
        (Inr None,
         w3\<lparr>logged := logged w3 @ [(''Database read error for '' @ f @ '':'', e)]\<rparr>)"
    by (simp add: readJsonFile_durable)
qed

lemma u1c1_fields: "this_userId u1c1 = ''u1''" "this_connectionId u1c1 = ''c1''"
  by (simp_all add: u1c1_def)

text \<open>
  Two runs: a token record whose \<open>tokenData\<close> is not a ciphertext reads as \<open>undefined\<close>,
  with the \<open>TypeError\<close> of \<open>decrypt\<close> in the log; a token record holding \<open>"t"\<close>, read
  through a schema that rejects it, reads as \<open>undefined\<close> too.
\<close>

theorem readJson_never_throws_witness:
  "getFromCache 1000 (getCacheKey u1c1 ''abc'' ''tokens.json'') (world_with_token ''zz'') =
     (Inr JNull, world_with_token ''zz'') \<and>
   getPrismaClient durable_env (world_with_token ''zz'') =
     (Inr (), (world_with_token ''zz'')\<lparr>prisma := Some ''postgres://db''\<rparr>) \<and>
   decrypt standin_lib durable_env ''zz'' ''u1'' =
     Inl (TypeError ''The first argument must be of type string or an instance of Buffer'') \<and>
   readJson standin_lib durable_env u1c1 1000 ''abc'' ''tokens.json'' (world_with_token ''zz'') =
     (Inr None,
      (world_with_token ''zz'')
        \<lparr>prisma := Some ''postgres://db'', roundTrips := 1,
         logged := [(''Error reading tokens.json from database:'',
           TypeError ''The first argument must be of type string or an instance of Buffer'')]\<rparr>) \<and>
   getStorage durable_env (world_with_token ''00000000000000000000000000000000:30:227422'') =
     (Some u1c1, world_with_token ''00000000000000000000000000000000:30:227422'') \<and>
   fst (readJson standin_lib durable_env u1c1 1000 ''abc'' ''tokens.json''
          (world_with_token ''00000000000000000000000000000000:30:227422'')) =
     Inr (Some (JStr ''t'')) \<and>
   truthy (JStr ''t'') \<and> rejecting_schema (JStr ''t'') = Inl (Error ''invalid'') \<and>
   fst (readJsonFile standin_lib durable_env no_files 1000 ''abc'' ''tokens.json''
          rejecting_schema (world_with_token ''00000000000000000000000000000000:30:227422'')) =
     Inr None \<and>
   map fst (logged (snd (readJsonFile standin_lib durable_env no_files 1000 ''abc''
          ''tokens.json'' rejecting_schema
          (world_with_token ''00000000000000000000000000000000:30:227422'')))) =
     [''Database read error for tokens.json:'']"
proof -
  let ?w = "world_with_token ''zz''"
  let ?e = "TypeError ''The first argument must be of type string or an instance of Buffer''"
  let ?wp = "?w\<lparr>prisma := Some ''postgres://db''\<rparr>"
  let ?w2 = "?w\<lparr>prisma := Some ''postgres://db'', roundTrips := 1\<rparr>"
  have miss: "getFromCache 1000 (getCacheKey u1c1 ''abc'' ''tokens.json'') ?w = (Inr JNull, ?w)"
    by (rule miss_in_world_with_token)
  have client: "getPrismaClient durable_env ?w = (Inr (), ?wp)"
    by (rule client_in_world_with_token)
  have row: "dbFault ?wp = None \<and>
      mCPRemoteToken ?wp (''u1'', ''c1'', ''abc'') =
        Some \<lparr>serverUrl = [], tokenData = ''zz'', tokenType = JStr ''oauth'',
              lastUpdated = None\<rparr>"
    by (simp add: world_with_token_def started_world_def fresh_world_def)
  have wp: "?wp\<lparr>roundTrips := roundTrips ?wp + 1\<rparr> = ?w2"
    by (simp add: world_with_token_def started_world_def fresh_world_def)
  have lg: "logged ?w2 = []"
    by (simp add: world_with_token_def started_world_def fresh_world_def)
  note corrupt = readJson_never_throws
    [where L = standin_lib and E = durable_env and this = u1c1 and now = 1000
       and h = "''abc''" and f = "''tokens.json''" and w = ?w and ?w1.0 = ?w and e = ?e
       and wp = ?wp and ?w2.0 = ?w2]
  have raised:
    "readJson_try standin_lib durable_env u1c1 1000 ''abc'' ''tokens.json'' ?w = (Inl ?e, ?w2)"
    using corrupt client row standin_decrypt_garbage
    by (simp only: wp [symmetric]) (simp add: u1c1_fields)
  from corrupt miss raised lg
  have first: "readJson standin_lib durable_env u1c1 1000 ''abc'' ''tokens.json'' ?w =
      (Inr None, ?w2\<lparr>logged := [(''Error reading tokens.json from database:'', ?e)]\<rparr>)"
    by simp
  let ?v = "world_with_token ''00000000000000000000000000000000:30:227422''"
  let ?v3 = "?v\<lparr>prisma := Some ''postgres://db'', roundTrips := 1,
                cache := [getCacheKey u1c1 ''abc'' ''tokens.json'' \<mapsto>
                            \<lparr>entry_data = JStr ''t'', entry_timestamp = 1000\<rparr>]\<rparr>"
  have st: "getStorage durable_env ?v = (Some u1c1, ?v)"
    by (rule getStorage_world_with_token)
  have rd: "readJson standin_lib durable_env u1c1 1000 ''abc'' ''tokens.json'' ?v =
      (Inr (Some (JStr ''t'')), ?v3)"
    by (simp add: readJson_world_with_token standin_decrypt_t standin_parse_t Let_def)
  have lg3: "logged ?v3 = []"
    by (simp add: world_with_token_def started_world_def fresh_world_def)
  have rej: "rejecting_schema (JStr ''t'') = Inl (Error ''invalid'')"
    by (simp add: rejecting_schema_def)
  note rejected = readJson_never_throws
    [where L = standin_lib and E = durable_env and F = no_files and now = 1000
       and h = "''abc''" and f = "''tokens.json''" and w = ?v and st = u1c1 and ws = ?v
       and d = "JStr ''t''" and ?w3.0 = ?v3 and schema = rejecting_schema
       and e = "Error ''invalid''"]
  from rejected st rd rej lg3
  have second: "readJsonFile standin_lib durable_env no_files 1000 ''abc'' ''tokens.json''
      rejecting_schema ?v =
      (Inr None, ?v3\<lparr>logged := [(''Database read error for tokens.json:'', Error ''invalid'')]\<rparr>)"
    by simp
  from miss client standin_decrypt_garbage first st rd rej second show ?thesis
    by simp
qed

section \<open>Falsy values read as missing\<close>

text \<open>
  Claim C10. In durable mode, when \<open>readJson\<close> has fetched \<open>false\<close>, \<open>0\<close>, the empty
  string or \<open>null\<close>, the exported \<open>readJsonFile\<close> returns \<open>undefined\<close> and leaves the
  world as \<open>readJson\<close> left it: the test \<open>!data\<close> comes before the schema, which is not
  consulted (the result is the same for every schema). These four are the falsy values
  among the scalars.
\<close>

theorem readJsonFile_falsy_is_absent:
  "(getStorage E w = (Some st, ws) \<and>
    readJson L E st now h f ws = (Inr (Some v), w3) \<and>
    (v = JBool False \<or> v = JNum 0 \<or> v = JStr [] \<or> v = JNull) \<longrightarrow>
      readJsonFile L E F now h f schema w = (Inr None, w3)) \<and>
   (truthy u = (u \<noteq> JBool False \<and> u \<noteq> JNum 0 \<and> u \<noteq> JStr [] \<and> u \<noteq> JNull))"
proof (intro conjI impI)
  assume a: "getStorage E w = (Some st, ws) \<and>
    readJson L E st now h f ws = (Inr (Some v), w3) \<and>
    (v = JBool False \<or> v = JNum 0 \<or> v = JStr [] \<or> v = JNull)"
  then have "\<not> truthy v"
    by auto
  with a show "readJsonFile L E F now h f schema w = (Inr None, w3)"
    by (simp add: readJsonFile_durable)
next
  show "truthy u = (u \<noteq> JBool False \<and> u \<noteq> JNum 0 \<and> u \<noteq> JStr [] \<and> u \<noteq> JNull)"
    by (cases u) auto
qed

lemma standin_decrypt_false:
  "decrypt standin_lib durable_env ''00000000000000000000000000000000:83:66616c7365'' ''u1'' =
     Inr ''false''"
  by code_simp

lemma standin_parse_false: "JSON_parse standin_lib ''false'' = Inr (JBool False)"
  by (simp add: standin_lib_def standin_documents_def)

text \<open>
  A run: the token record holds the encryption of \<open>false\<close>; \<open>readJson\<close> fetches and caches
  \<open>false\<close>, and \<open>readJsonFile\<close> returns \<open>undefined\<close> even through a schema that would
  accept the value.
\<close>

theorem readJsonFile_falsy_is_absent_witness:
  "getStorage durable_env
     (world_with_token ''00000000000000000000000000000000:83:66616c7365'') =
     (Some u1c1, world_with_token ''00000000000000000000000000000000:83:66616c7365'') \<and>
   fst (readJson standin_lib durable_env u1c1 1000 ''abc'' ''tokens.json''
          (world_with_token ''00000000000000000000000000000000:83:66616c7365'')) =
     Inr (Some (JBool False)) \<and>
   fst (readJsonFile standin_lib durable_env no_files 1000 ''abc'' ''tokens.json'' Inr
          (world_with_token ''00000000000000000000000000000000:83:66616c7365'')) =
     Inr None \<and>
   \<not> truthy (JNum 0)"
proof -
  let ?v = "world_with_token ''00000000000000000000000000000000:83:66616c7365''"
  let ?v3 = "?v\<lparr>prisma := Some ''postgres://db'', roundTrips := 1,
                cache := [getCacheKey u1c1 ''abc'' ''tokens.json'' \<mapsto>
                            \<lparr>entry_data = JBool False, entry_timestamp = 1000\<rparr>]\<rparr>"
  have st: "getStorage durable_env ?v = (Some u1c1, ?v)"
    by (rule getStorage_world_with_token)
  have rd: "readJson standin_lib durable_env u1c1 1000 ''abc'' ''tokens.json'' ?v =
      (Inr (Some (JBool False)), ?v3)"
    by (simp add: readJson_world_with_token standin_decrypt_false standin_parse_false Let_def)
  note run = readJsonFile_falsy_is_absent
    [where L = standin_lib and E = durable_env and F = no_files and now = 1000
       and h = "''abc''" and f = "''tokens.json''" and w = ?v and st = u1c1 and ws = ?v
       and v = "JBool False" and ?w3.0 = ?v3 and schema = Inr and u = "JNum 0"]
  from run st rd show ?thesis
    by simp
qed

section \<open>Text reads\<close>

lemma readText_unfold:
  "readJson L E this now h f w = (r, w1) \<Longrightarrow>
   readText L E this now h f w =
     (case r of
        Inl e \<Rightarrow> (Inl e, w1)
      | Inr (Some (JStr s)) \<Rightarrow>
          if s \<noteq> [] then (Inr s, w1) else (Inl (Error (''Error reading '' @ f)), w1)
      | Inr _ \<Rightarrow> (Inl (Error (''Error reading '' @ f)), w1))"
  by (simp add: readText_def bindIO_def ret_def throw_def
        split: sum.splits option.splits json.splits)

lemma readTextFile_durable:
  "getStorage E w = (Some st, ws) \<Longrightarrow>
   readTextFile L E F now h f msg w =
     (case readText L E st now h f ws of
        (Inl e, w1) \<Rightarrow> (Inl (Error (readTextFile_message msg f)), w1)
      | (Inr s, w1) \<Rightarrow> (Inr s, w1))"
  by (simp add: readTextFile_def tryCatch_def throw_def split: prod.splits sum.splits)

text \<open>
  Claim C9, as amended. \<open>readText\<close> returns the string that \<open>readJson\<close> yields when it is
  a non-empty string, and throws \<open>Error reading <filename>\<close> in every other case: the
  value is absent, is not a string, or is the empty string. In durable mode the exported
  \<open>readTextFile\<close> returns what \<open>readText\<close> returns and replaces what it throws by an error
  whose message is the caller's \<open>errorMessage\<close> when that is a non-empty string and
  \<open>Error reading <filename>\<close> otherwise.
\<close>

theorem readText_throws_iff_no_nonempty_string:
  "(readJson L E this now h f w = (Inr (Some (JStr s)), w1) \<and> s \<noteq> [] \<longrightarrow>
      readText L E this now h f w = (Inr s, w1)) \<and>
   (readJson L E this now h f w = (Inr r, w1) \<and>
    ((\<forall>s. r \<noteq> Some (JStr s)) \<or> r = Some (JStr [])) \<longrightarrow>
      readText L E this now h f w = (Inl (Error (''Error reading '' @ f)), w1)) \<and>
   (getStorage E w = (Some st, ws) \<and> readText L E st now h f ws = (Inr s, w1) \<longrightarrow>
      readTextFile L E F now h f msg w = (Inr s, w1)) \<and>
   (getStorage E w = (Some st, ws) \<and> readText L E st now h f ws = (Inl e, w1) \<longrightarrow>
      readTextFile L E F now h f msg w = (Inl (Error (readTextFile_message msg f)), w1)) \<and>
   readTextFile_message None f = ''Error reading '' @ f \<and>
   readTextFile_message (Some []) f = ''Error reading '' @ f \<and>
   (m \<noteq> [] \<longrightarrow> readTextFile_message (Some m) f = m)"
proof (intro conjI impI)
  assume "readJson L E this now h f w = (Inr (Some (JStr s)), w1) \<and> s \<noteq> []"
  then show "readText L E this now h f w = (Inr s, w1)"
    by (simp add: readText_unfold)
next
  assume a: "readJson L E this now h f w = (Inr r, w1) \<and>
    ((\<forall>s. r \<noteq> Some (JStr s)) \<or> r = Some (JStr []))"
  then have rj: "readJson L E this now h f w = (Inr r, w1)"
    by simp
  from a show "readText L E this now h f w = (Inl (Error (''Error reading '' @ f)), w1)"
    by (auto simp: readText_unfold [OF rj] split: option.splits json.splits)
next
  assume "getStorage E w = (Some st, ws) \<and> readText L E st now h f ws = (Inr s, w1)"
  then show "readTextFile L E F now h f msg w = (Inr s, w1)"
    by (simp add: readTextFile_durable)
next
  assume "getStorage E w = (Some st, ws) \<and> readText L E st now h f ws = (Inl e, w1)"
  then show "readTextFile L E F now h f msg w =
      (Inl (Error (readTextFile_message msg f)), w1)"
    by (simp add: readTextFile_durable)
qed (simp_all add: readTextFile_message_def)

lemma standin_decrypt_empty_string:
  "decrypt standin_lib durable_env ''00000000000000000000000000000000:bc:2222'' ''u1'' =
     Inr [CHR 0x22, CHR 0x22]"
  by code_simp

lemma standin_parse_empty_string:
  "JSON_parse standin_lib [CHR 0x22, CHR 0x22] = Inr (JStr [])"
  by (simp add: standin_lib_def standin_documents_def)

text \<open>
  The claim as stated fails on the empty string: the token record holds the encryption
  of \<open>""\<close>, \<open>readJson\<close> yields the string, and \<open>readText\<close> throws.
\<close>

theorem readText_empty_string_counterexample:
  "fst (readJson standin_lib durable_env u1c1 1000 ''abc'' ''tokens.json''
          (world_with_token ''00000000000000000000000000000000:bc:2222'')) =
     Inr (Some (JStr [])) \<and>
   fst (readText standin_lib durable_env u1c1 1000 ''abc'' ''tokens.json''
          (world_with_token ''00000000000000000000000000000000:bc:2222'')) =
     Inl (Error ''Error reading tokens.json'')"
proof -
  let ?v = "world_with_token ''00000000000000000000000000000000:bc:2222''"
  let ?v3 = "?v\<lparr>prisma := Some ''postgres://db'', roundTrips := 1,
                cache := [getCacheKey u1c1 ''abc'' ''tokens.json'' \<mapsto>
                            \<lparr>entry_data = JStr [], entry_timestamp = 1000\<rparr>]\<rparr>"
  have rd: "readJson standin_lib durable_env u1c1 1000 ''abc'' ''tokens.json'' ?v =
      (Inr (Some (JStr [])), ?v3)"
    by (simp add: readJson_world_with_token standin_decrypt_empty_string
          standin_parse_empty_string Let_def)
  show ?thesis
    by (simp add: readText_unfold [OF rd] rd)
qed

text \<open>
  Runs of the amended claim: the record holding \<open>"t"\<close> reads as the text \<open>t\<close>, through
  \<open>readTextFile\<close> as well; the record that is not a ciphertext reads as absent, and
  \<open>readTextFile\<close> throws the caller's message.
\<close>

theorem readText_throws_iff_no_nonempty_string_witness:
  "fst (readJson standin_lib durable_env u1c1 1000 ''abc'' ''tokens.json''
          (world_with_token ''00000000000000000000000000000000:30:227422'')) =
     Inr (Some (JStr ''t'')) \<and>
   fst (readText standin_lib durable_env u1c1 1000 ''abc'' ''tokens.json''
          (world_with_token ''00000000000000000000000000000000:30:227422'')) = Inr ''t'' \<and>
   fst (readTextFile standin_lib durable_env no_files 1000 ''abc'' ''tokens.json'' None
          (world_with_token ''00000000000000000000000000000000:30:227422'')) = Inr ''t'' \<and>
   fst (readJson standin_lib durable_env u1c1 1000 ''abc'' ''tokens.json''
          (world_with_token ''zz'')) = Inr None \<and>
   fst (readText standin_lib durable_env u1c1 1000 ''abc'' ''tokens.json''
          (world_with_token ''zz'')) = Inl (Error ''Error reading tokens.json'') \<and>
   fst (readTextFile standin_lib durable_env no_files 1000 ''abc'' ''tokens.json''
          (Some ''no tokens'') (world_with_token ''zz'')) = Inl (Error ''no tokens'')"
proof -
  let ?v = "world_with_token ''00000000000000000000000000000000:30:227422''"
  let ?v3 = "?v\<lparr>prisma := Some ''postgres://db'', roundTrips := 1,
                cache := [getCacheKey u1c1 ''abc'' ''tokens.json'' \<mapsto>
                            \<lparr>entry_data = JStr ''t'', entry_timestamp = 1000\<rparr>]\<rparr>"
  let ?z = "world_with_token ''zz''"
  let ?z3 = "?z\<lparr>prisma := Some ''postgres://db'', roundTrips := 1,
      logged := [(''Error reading tokens.json from database:'',
        TypeError ''The first argument must be of type string or an instance of Buffer'')]\<rparr>"
  have rd: "readJson standin_lib durable_env u1c1 1000 ''abc'' ''tokens.json'' ?v =
      (Inr (Some (JStr ''t'')), ?v3)"
    by (simp add: readJson_world_with_token standin_decrypt_t standin_parse_t Let_def)
  have rz: "readJson standin_lib durable_env u1c1 1000 ''abc'' ''tokens.json'' ?z =
      (Inr None, ?z3)"
    by (simp add: readJson_world_with_token standin_decrypt_garbage Let_def)
  note good = readText_throws_iff_no_nonempty_string
    [where L = standin_lib and E = durable_env and F = no_files and this = u1c1
       and now = 1000 and h = "''abc''" and f = "''tokens.json''" and w = ?v and ?w1.0 = ?v3
       and s = "''t''" and st = u1c1 and ws = ?v and msg = None]
  note bad = readText_throws_iff_no_nonempty_string
    [where L = standin_lib and E = durable_env and F = no_files and this = u1c1
       and now = 1000 and h = "''abc''" and f = "''tokens.json''" and w = ?z and ?w1.0 = ?z3
       and r = None and st = u1c1 and ws = ?z and msg = "Some ''no tokens''"
       and e = "Error ''Error reading tokens.json''" and m = "''no tokens''"]
  have t1: "readText standin_lib durable_env u1c1 1000 ''abc'' ''tokens.json'' ?v =
      (Inr ''t'', ?v3)"
    using good rd by simp
  have t2: "readTextFile standin_lib durable_env no_files 1000 ''abc'' ''tokens.json'' None ?v =
      (Inr ''t'', ?v3)"
    using good t1 getStorage_world_with_token by simp
  have z1: "readText standin_lib durable_env u1c1 1000 ''abc'' ''tokens.json'' ?z =
      (Inl (Error ''Error reading tokens.json''), ?z3)"
    using bad rz by simp
  have z2: "readTextFile standin_lib durable_env no_files 1000 ''abc'' ''tokens.json''
      (Some ''no tokens'') ?z = (Inl (Error ''no tokens''), ?z3)"
    using bad z1 getStorage_world_with_token by simp
  from rd t1 t2 rz z1 z2 show ?thesis
    by simp
qed

section \<open>The cache and its time to live\<close>

lemma getFromCache_entry:
  "cache w k = Some \<lparr>entry_data = v, entry_timestamp = t0\<rparr> \<Longrightarrow>
   getFromCache (t0 + \<Delta>) k w =
     (if \<Delta> < 5000 then (Inr v, w) else (Inr JNull, w\<lparr>cache := (cache w)(k := None)\<rparr>))"
  by (simp add: getFromCache_def CACHE_TTL_def)

lemma getPrismaClient_cases:
  "getPrismaClient E w =
     (if prisma w = None \<and> \<not> str_truthy (env_DATABASE_URL E)
      then (Inl (Error ''DATABASE_URL is required for database storage mode''), w)
      else (Inr (), if prisma w = None then w\<lparr>prisma := env_DATABASE_URL E\<rparr> else w))"
  by (simp add: getPrismaClient_def split: option.splits)

lemma getFromCache_frame:
  "getFromCache now k w = (c, w0) \<Longrightarrow>
   dbFault w0 = dbFault w \<and> mCPRemoteToken w0 = mCPRemoteToken w \<and>
   roundTrips w0 = roundTrips w \<and> prisma w0 = prisma w"
  by (auto simp: getFromCache_def split: option.splits if_splits)

text \<open>
  The fetch of a \<open>tokens.json\<close> address: when the cache gives \<open>null\<close> and the client is
  there or can be constructed, \<open>readJson\<close> makes one round trip; it returns \<open>undefined\<close>
  when the store holds no record, and the stored value, cached at the time of the read,
  when the record decrypts and parses.
\<close>

lemma readJson_tokens_fetch:
  assumes miss: "getFromCache now (getCacheKey this h ''tokens.json'') w = (Inr JNull, w0)"
    and avail: "prisma w \<noteq> None \<or> str_truthy (env_DATABASE_URL E)"
  shows "roundTrips (snd (readJson L E this now h ''tokens.json'' w)) = roundTrips w + 1"
    and "dbFault w = None \<Longrightarrow>
         mCPRemoteToken w (this_userId this, this_connectionId this, h) = None \<Longrightarrow>
         fst (readJson L E this now h ''tokens.json'' w) = Inr None"
    and "dbFault w = None \<Longrightarrow>
         mCPRemoteToken w (this_userId this, this_connectionId this, h) = Some r \<Longrightarrow>
         decrypt L E (tokenData r) (this_userId this) = Inr s \<Longrightarrow> JSON_parse L s = Inr d \<Longrightarrow>
         fst (readJson L E this now h ''tokens.json'' w) = Inr (Some d) \<and>
         cache (snd (readJson L E this now h ''tokens.json'' w))
           (getCacheKey this h ''tokens.json'') =
           Some \<lparr>entry_data = d, entry_timestamp = now\<rparr>"
proof -
  note frame = getFromCache_frame [OF miss]
  define wp where "wp = (if prisma w0 = None then w0\<lparr>prisma := env_DATABASE_URL E\<rparr> else w0)"
  from avail frame have client: "getPrismaClient E w0 = (Inr (), wp)"
    by (auto simp: getPrismaClient_cases wp_def)
  have same: "dbFault wp = dbFault w" "mCPRemoteToken wp = mCPRemoteToken w"
    "roundTrips wp = roundTrips w"
    using frame by (simp_all add: wp_def)
  note unfolded = readJson_unfold [OF miss, where L = L and E = E]
    readJson_try_tokens [OF client, where L = L and this = this and now = now and h = h]
  show "roundTrips (snd (readJson L E this now h ''tokens.json'' w)) = roundTrips w + 1"
    using same by (simp add: unfolded Let_def split: option.splits sum.splits)
  show "fst (readJson L E this now h ''tokens.json'' w) = Inr None"
    if "dbFault w = None"
      and "mCPRemoteToken w (this_userId this, this_connectionId this, h) = None"
    using that same by (simp add: unfolded Let_def)
  show "fst (readJson L E this now h ''tokens.json'' w) = Inr (Some d) \<and>
        cache (snd (readJson L E this now h ''tokens.json'' w))
          (getCacheKey this h ''tokens.json'') =
          Some \<lparr>entry_data = d, entry_timestamp = now\<rparr>"
    if "dbFault w = None"
      and "mCPRemoteToken w (this_userId this, this_connectionId this, h) = Some r"
      and "decrypt L E (tokenData r) (this_userId this) = Inr s" and "JSON_parse L s = Inr d"
    using that same by (simp add: unfolded Let_def)
qed

lemma readJson_expired_entry:
  assumes "cache w (getCacheKey this h f) = Some \<lparr>entry_data = v, entry_timestamp = t0\<rparr>"
    and "\<not> \<Delta> < 5000"
  shows "readJson L E this (t0 + \<Delta>) h f w =
         readJson L E this (t0 + \<Delta>) h f (w\<lparr>cache := (cache w)(getCacheKey this h f := None)\<rparr>)"
  using assms
  by (simp add: readJson_def Let_def bindIO_def getFromCache_def CACHE_TTL_def)

subsection \<open>What the code caches\<close>

lemma cache_inv_same:
  "cache w' = cache w \<Longrightarrow> prisma w' = prisma w \<Longrightarrow> cache_inv E w \<Longrightarrow> cache_inv E w'"
  by (simp add: cache_inv_def)

lemma cache_inv_removed:
  "cache w' = (cache w)(k := None) \<Longrightarrow> prisma w' = prisma w \<Longrightarrow> cache_inv E w \<Longrightarrow>
   cache_inv E w'"
  by (simp add: cache_inv_def)

lemma cache_inv_getFromCache:
  "getFromCache now k w = (c, w0) \<Longrightarrow> cache_inv E w \<Longrightarrow> cache_inv E w0"
  by (auto simp: getFromCache_def cache_inv_def split: option.splits if_splits)

lemma cache_inv_getPrismaClient:
  "cache_inv E w \<Longrightarrow> cache_inv E (snd (getPrismaClient E w))"
  by (auto simp: getPrismaClient_cases cache_inv_def)

lemma readJson_try_tokens_no_client:
  "getPrismaClient E w = (Inl e, wp) \<Longrightarrow>
   readJson_try L E this now h ''tokens.json'' w = (Inl e, wp)"
  by (simp add: readJson_try_def Let_def bindIO_def)

lemma cache_inv_readJson_try:
  assumes inv: "cache_inv E w"
  shows "cache_inv E (snd (readJson_try L E this now h f w))"
proof (cases "f = ''tokens.json''")
  case False
  with inv show ?thesis
    by (simp add: readJson_try_other)
next
  case True
  show ?thesis
  proof (cases "prisma w = None \<and> \<not> str_truthy (env_DATABASE_URL E)")
    case True
    then have "getPrismaClient E w =
        (Inl (Error ''DATABASE_URL is required for database storage mode''), w)"
      by (simp add: getPrismaClient_cases)
    from readJson_try_tokens_no_client [OF this] inv \<open>f = ''tokens.json''\<close> show ?thesis
      by simp
  next
    case False
    define wp where "wp = (if prisma w = None then w\<lparr>prisma := env_DATABASE_URL E\<rparr> else w)"
    from False have client: "getPrismaClient E w = (Inr (), wp)"
      by (auto simp: getPrismaClient_cases wp_def)
    from False inv have url: "str_truthy (env_DATABASE_URL E)"
      by (auto simp: cache_inv_def)
    from inv url have "cache_inv E wp"
      by (auto simp: cache_inv_def wp_def)
    with url \<open>f = ''tokens.json''\<close> show ?thesis
      by (auto simp: readJson_try_tokens [OF client] Let_def cache_inv_def
            split: option.splits sum.splits)
  qed
qed

lemma cache_inv_readJson:
  assumes inv: "cache_inv E w"
  shows "cache_inv E (snd (readJson L E this now h f w))"
proof -
  obtain c w0 where gc: "getFromCache now (getCacheKey this h f) w = (Inr c, w0)"
    using getFromCache_total by blast
  from cache_inv_getFromCache [OF gc inv] have inv0: "cache_inv E w0" .
  from cache_inv_readJson_try [OF inv0]
  have "cache_inv E (snd (readJson_try L E this now h f w0))" .
  with inv0 show ?thesis
    by (cases "readJson_try L E this now h f w0")
       (auto simp: readJson_unfold [OF gc] cache_inv_def split: sum.splits)
qed

lemma cache_inv_writeJson:
  "cache_inv E w \<Longrightarrow> cache_inv E (snd (writeJson L E this iv now h f dat w))"
  by (simp add: writeJson_result Let_def cache_inv_def)

lemma cache_inv_delete: "cache_inv E w \<Longrightarrow> cache_inv E (snd (delete this h f w))"
  by (simp add: delete_result cache_inv_def)

lemma getStorage_frame:
  "cache (snd (getStorage E w)) = cache w \<and> prisma (snd (getStorage E w)) = prisma w"
  by (cases "USER_ID E"; cases "CONNECTION_ID E")
     (auto simp: getStorage_def Let_def split: option.splits)

lemma cache_inv_getStorage: "cache_inv E w \<Longrightarrow> cache_inv E (snd (getStorage E w))"
  using getStorage_frame [of E w] by (simp add: cache_inv_def)

lemma snd_readText:
  "snd (readText L E this now h f w) = snd (readJson L E this now h f w)"
  by (cases "readJson L E this now h f w")
     (auto simp: readText_unfold split: sum.splits option.splits json.splits)

lemma cache_inv_onFiles: "cache_inv E w \<Longrightarrow> cache_inv E (snd (onFiles g w))"
  by (simp add: onFiles_def cache_inv_def split: prod.splits)

lemma cache_inv_exec:
  assumes inv: "cache_inv E w"
  shows "cache_inv E (exec L E F c w)"
proof -
  obtain st ws where g: "getStorage E w = (st, ws)"
    by (cases "getStorage E w")
  from cache_inv_getStorage [OF inv] g have invs: "cache_inv E ws"
    by simp
  show ?thesis
  proof (cases st)
    case None
    with g invs show ?thesis
      by (cases c)
         (simp_all add: readJsonFile_def writeJsonFile_def readTextFile_def writeTextFile_def
            cache_inv_onFiles)
  next
    case (Some inst)
    with g have gs: "getStorage E w = (Some inst, ws)"
      by simp
    show ?thesis
    proof (cases c)
      case (ReadJsonFile now h f sch)
      from cache_inv_readJson [OF invs, of L inst now h f] ReadJsonFile show ?thesis
        by (cases "readJson L E inst now h f ws")
           (auto simp: readJsonFile_durable [OF gs] cache_inv_def
              split: sum.splits option.splits)
    next
      case (WriteJsonFile iv now h f dat)
      with gs cache_inv_writeJson [OF invs] show ?thesis
        by (simp add: writeJsonFile_def)
    next
      case (ReadTextFile now h f msg)
      from cache_inv_readJson [OF invs, of L inst now h f] snd_readText [of L E inst now h f ws]
        ReadTextFile
      show ?thesis
        by (cases "readText L E inst now h f ws")
           (auto simp: readTextFile_durable [OF gs] split: sum.splits)
    next
      case (WriteTextFile iv now h f t)
      with gs cache_inv_writeJson [OF invs] show ?thesis
        by (simp add: writeTextFile_def writeText_def)
    qed
  qed
qed

text \<open>
  In every world the process can be in, a cached value sits under the key of a
  \<open>tokens.json\<close> address, and the client is there or can be constructed.
\<close>

lemma reachable_cache_inv: "reachable L E w \<Longrightarrow> cache_inv E w"
proof (induction rule: reachable.induct)
  case (start w)
  then show ?case
    by (simp add: cache_inv_def)
next
  case (disconnect_step w)
  then show ?case
    by (simp add: cache_inv_def)
next
  case (store_step w t c s d)
  then show ?case
    by (simp add: cache_inv_def)
qed (simp_all add: cache_inv_readJson cache_inv_writeJson cache_inv_delete cache_inv_exec
       cache_inv_getPrismaClient)

lemma cached_only_after_fetch:
  "reachable L E w \<Longrightarrow> cache w k = Some entry \<Longrightarrow>
   (prisma w \<noteq> None \<or> str_truthy (env_DATABASE_URL E)) \<and>
   (\<exists>this h. k = getCacheKey this h ''tokens.json'')"
  using reachable_cache_inv [of L E w] by (auto simp: cache_inv_def)

text \<open>
  Claim C6, as amended. The time to live is 5000 ms. A value cached at \<open>t0\<close> and looked up
  at \<open>t0 + \<Delta>\<close> is handed back by \<open>getFromCache\<close> when \<open>\<Delta> < 5000\<close>, and \<open>readJson\<close> returns
  it with the world untouched (so without a round trip) provided it is not \<open>null\<close>; a
  cached \<open>null\<close> is what \<open>getFromCache\<close> also returns for a miss, and \<open>readJson\<close> fetches
  again. When \<open>\<Delta> \<ge> 5000\<close> the entry is deleted on access and the read is the read of a
  world without the entry, so the cached value is not returned past expiry; for a
  \<open>tokens.json\<close> address, with the client there or constructible, that read is a fresh
  fetch: one round trip to the record store, returning \<open>undefined\<close> when the store
  holds no record and the stored value, cached anew at the time of the read, when the
  record decrypts and parses. In every world the process can be in, a cached value sits
  under the key of a \<open>tokens.json\<close> address and the client is there or constructible.
\<close>

theorem cache_hit_within_ttl:
  "CACHE_TTL = 5000 \<and>
   (cache w (getCacheKey this h f) = Some \<lparr>entry_data = v, entry_timestamp = t0\<rparr> \<longrightarrow>
      (\<Delta> < 5000 \<longrightarrow> getFromCache (t0 + \<Delta>) (getCacheKey this h f) w = (Inr v, w)) \<and>
      (\<Delta> < 5000 \<and> v \<noteq> JNull \<longrightarrow>
         readJson L E this (t0 + \<Delta>) h f w = (Inr (Some v), w)) \<and>
      (\<Delta> < 5000 \<and> v = JNull \<and> f = ''tokens.json'' \<and>
       (prisma w \<noteq> None \<or> str_truthy (env_DATABASE_URL E)) \<longrightarrow>
         roundTrips (snd (readJson L E this (t0 + \<Delta>) h f w)) = roundTrips w + 1) \<and>
      (\<not> \<Delta> < 5000 \<longrightarrow>
         getFromCache (t0 + \<Delta>) (getCacheKey this h f) w =
           (Inr JNull, w\<lparr>cache := (cache w)(getCacheKey this h f := None)\<rparr>) \<and>
         readJson L E this (t0 + \<Delta>) h f
           (w\<lparr>cache := (cache w)(getCacheKey this h f := None)\<rparr>) =
           readJson L E this (t0 + \<Delta>) h f w) \<and>
      (\<not> \<Delta> < 5000 \<and> f = ''tokens.json'' \<and>
       (prisma w \<noteq> None \<or> str_truthy (env_DATABASE_URL E)) \<longrightarrow>
         roundTrips (snd (readJson L E this (t0 + \<Delta>) h f w)) = roundTrips w + 1 \<and>
         (dbFault w = None \<and>
          mCPRemoteToken w (this_userId this, this_connectionId this, h) = None \<longrightarrow>
            fst (readJson L E this (t0 + \<Delta>) h f w) = Inr None) \<and>
         (dbFault w = None \<and>
          mCPRemoteToken w (this_userId this, this_connectionId this, h) = Some r \<and>
          decrypt L E (tokenData r) (this_userId this) = Inr s \<and> JSON_parse L s = Inr d \<longrightarrow>
            fst (readJson L E this (t0 + \<Delta>) h f w) = Inr (Some d) \<and>
            cache (snd (readJson L E this (t0 + \<Delta>) h f w)) (getCacheKey this h f) =
              Some \<lparr>entry_data = d, entry_timestamp = t0 + \<Delta>\<rparr>)) \<and>
      (reachable L E w \<longrightarrow>
         (prisma w \<noteq> None \<or> str_truthy (env_DATABASE_URL E)) \<and>
         (\<exists>this' h'. getCacheKey this h f = getCacheKey this' h' ''tokens.json'')))"
proof (intro conjI impI)
  show "CACHE_TTL = 5000"
    by (simp add: CACHE_TTL_def)
next
  assume c: "cache w (getCacheKey this h f) = Some \<lparr>entry_data = v, entry_timestamp = t0\<rparr>"
  {
    assume "\<Delta> < 5000"
    then show "getFromCache (t0 + \<Delta>) (getCacheKey this h f) w = (Inr v, w)"
      by (simp add: getFromCache_entry [OF c])
  next
    assume "\<Delta> < 5000 \<and> v \<noteq> JNull"
    then show "readJson L E this (t0 + \<Delta>) h f w = (Inr (Some v), w)"
      by (simp add: readJson_def Let_def bindIO_def getFromCache_entry [OF c] ret_def)
  next
    assume a: "\<Delta> < 5000 \<and> v = JNull \<and> f = ''tokens.json'' \<and>
      (prisma w \<noteq> None \<or> str_truthy (env_DATABASE_URL E))"
    with c have "getFromCache (t0 + \<Delta>) (getCacheKey this h ''tokens.json'') w = (Inr JNull, w)"
      by (simp add: getFromCache_entry)
    from readJson_tokens_fetch(1) [OF this, where L = L and E = E] a
    show "roundTrips (snd (readJson L E this (t0 + \<Delta>) h f w)) = roundTrips w + 1"
      by simp
  next
    assume "\<not> \<Delta> < 5000"
    then show "getFromCache (t0 + \<Delta>) (getCacheKey this h f) w =
        (Inr JNull, w\<lparr>cache := (cache w)(getCacheKey this h f := None)\<rparr>)"
      by (simp add: getFromCache_entry [OF c])
  next
    assume "\<not> \<Delta> < 5000"
    then show "readJson L E this (t0 + \<Delta>) h f
          (w\<lparr>cache := (cache w)(getCacheKey this h f := None)\<rparr>) =
        readJson L E this (t0 + \<Delta>) h f w"
      by (rule readJson_expired_entry [OF c, symmetric])
  next
    assume a: "\<not> \<Delta> < 5000 \<and> f = ''tokens.json'' \<and>
      (prisma w \<noteq> None \<or> str_truthy (env_DATABASE_URL E))"
    with c have miss: "getFromCache (t0 + \<Delta>) (getCacheKey this h ''tokens.json'') w =
        (Inr JNull, w\<lparr>cache := (cache w)(getCacheKey this h ''tokens.json'' := None)\<rparr>)"
      by (simp add: getFromCache_entry)
    from a have avail: "prisma w \<noteq> None \<or> str_truthy (env_DATABASE_URL E)"
      by simp
    note fetch = readJson_tokens_fetch [OF miss avail, where L = L]
    from fetch(1) a
    show "roundTrips (snd (readJson L E this (t0 + \<Delta>) h f w)) = roundTrips w + 1"
      by simp
    {
      assume "dbFault w = None \<and>
        mCPRemoteToken w (this_userId this, this_connectionId this, h) = None"
      with fetch(2) a show "fst (readJson L E this (t0 + \<Delta>) h f w) = Inr None"
        by simp
    next
      assume b: "dbFault w = None \<and>
        mCPRemoteToken w (this_userId this, this_connectionId this, h) = Some r \<and>
        decrypt L E (tokenData r) (this_userId this) = Inr s \<and> JSON_parse L s = Inr d"
      with fetch(3) [where r = r and s = s and d = d] a
      show "fst (readJson L E this (t0 + \<Delta>) h f w) = Inr (Some d)"
        by simp
      from b fetch(3) [where r = r and s = s and d = d] a
      show "cache (snd (readJson L E this (t0 + \<Delta>) h f w)) (getCacheKey this h f) =
          Some \<lparr>entry_data = d, entry_timestamp = t0 + \<Delta>\<rparr>"
        by simp
    }
  next
    assume "reachable L E w"
    from cached_only_after_fetch [OF this c]
    show "prisma w \<noteq> None \<or> str_truthy (env_DATABASE_URL E)"
      and "\<exists>this' h'. getCacheKey this h f = getCacheKey this' h' ''tokens.json''"
      by simp_all
  }
qed

lemma standin_decrypt_null:
  "decrypt standin_lib durable_env ''00000000000000000000000000000000:33:6e756c6c'' ''u1'' =
     Inr ''null''"
  by code_simp

lemma standin_parse_null: "JSON_parse standin_lib ''null'' = Inr JNull"
  by (simp add: standin_lib_def standin_documents_def)

text \<open>
  The claim as stated fails for a cached \<open>null\<close>. The token record holds the encryption
  of \<open>null\<close>. The read at time 1000 makes one round trip and caches \<open>null\<close>; the read at
  time 1001, well within the time to live, makes a second round trip.
\<close>

theorem cached_null_counterexample:
  "readJson standin_lib durable_env u1c1 1000 ''abc'' ''tokens.json''
     (world_with_token ''00000000000000000000000000000000:33:6e756c6c'') =
     (Inr (Some JNull), null_cached_world) \<and>
   cache null_cached_world (getCacheKey u1c1 ''abc'' ''tokens.json'') =
     Some \<lparr>entry_data = JNull, entry_timestamp = 1000\<rparr> \<and>
   roundTrips null_cached_world = 1 \<and>
   (1001::int) - 1000 < CACHE_TTL \<and>
   roundTrips (snd (readJson standin_lib durable_env u1c1 1001 ''abc'' ''tokens.json''
                      null_cached_world)) = 2"
proof -
  let ?v = "world_with_token ''00000000000000000000000000000000:33:6e756c6c''"
  have first: "readJson standin_lib durable_env u1c1 1000 ''abc'' ''tokens.json'' ?v =
      (Inr (Some JNull), null_cached_world)"
    by (simp add: readJson_world_with_token standin_decrypt_null standin_parse_null Let_def
          null_cached_world_def)
  have entry: "cache null_cached_world (getCacheKey u1c1 ''abc'' ''tokens.json'') =
      Some \<lparr>entry_data = JNull, entry_timestamp = 1000\<rparr>"
    by (simp add: null_cached_world_def)
  have hit: "getFromCache 1001 (getCacheKey u1c1 ''abc'' ''tokens.json'') null_cached_world =
      (Inr JNull, null_cached_world)"
    using getFromCache_entry [OF entry, of 1] by simp
  have client: "getPrismaClient durable_env null_cached_world = (Inr (), null_cached_world)"
    by (simp add: getPrismaClient_def null_cached_world_def)
  have second: "roundTrips (snd (readJson standin_lib durable_env u1c1 1001 ''abc''
      ''tokens.json'' null_cached_world)) = 2"
    by (simp add: readJson_unfold [OF hit] readJson_try_tokens [OF client] Let_def)
       (simp add: null_cached_world_def world_with_token_def started_world_def fresh_world_def
          u1c1_def standin_decrypt_null standin_parse_null)
  from first entry second show ?thesis
    by (simp add: null_cached_world_def CACHE_TTL_def)
qed

text \<open>
  The world used in the runs below is one the process can be in: it starts on the
  store with the token record for \<open>"t"\<close>, reads it at time 1000, and then the record is
  replaced.
\<close>

lemma stale_world_reachable: "reachable standin_lib durable_env stale_world"
proof -
  let ?T = "''00000000000000000000000000000000:30:227422''"
  have "reachable standin_lib durable_env (world_with_token ?T)"
    by (rule reachable.start)
       (simp_all add: world_with_token_def started_world_def fresh_world_def)
  from reachable.readJson_step [OF this, where this = u1c1 and now = 1000 and h = "''abc''"
    and f = "''tokens.json''"]
  have "reachable standin_lib durable_env t_cached_world"
    by (simp add: readJson_world_with_token standin_decrypt_t standin_parse_t Let_def
          t_cached_world_def)
  from reachable.store_step [OF this,
    where t = "[(''u1'', ''c1'', ''abc'') \<mapsto>
          \<lparr>serverUrl = [], tokenData = ''00000000000000000000000000000000:83:66616c7365'',
           tokenType = JStr ''oauth'', lastUpdated = None\<rparr>]"
      and c = "mCPRemoteClientInfo t_cached_world" and s = "mCPRemoteStorage t_cached_world"
      and d = "dbFault t_cached_world"]
  show ?thesis
    by (simp add: stale_world_def)
qed

text \<open>
  Runs of the amended claim on the world in which \<open>"t"\<close> was cached at time 1000 and the
  record has since become the encryption of \<open>false\<close>. The read at 5999 returns the cached
  \<open>"t"\<close> and changes nothing. The read at 6000 finds the entry expired and fetches: a
  second round trip, the stored \<open>false\<close> returned and cached at 6000. With the record
  gone from the store instead, the read at 6000 returns \<open>undefined\<close> after its round
  trip. On the world in which \<open>null\<close> was cached the read at 1001 makes a round trip.
\<close>

theorem cache_hit_within_ttl_witness:
  "cache stale_world (getCacheKey u1c1 ''abc'' ''tokens.json'') =
     Some \<lparr>entry_data = JStr ''t'', entry_timestamp = 1000\<rparr> \<and>
   JStr ''t'' \<noteq> JNull \<and> roundTrips stale_world = 1 \<and> prisma stale_world \<noteq> None \<and>
   readJson standin_lib durable_env u1c1 5999 ''abc'' ''tokens.json'' stale_world =
     (Inr (Some (JStr ''t'')), stale_world) \<and>
   fst (getFromCache 6000 (getCacheKey u1c1 ''abc'' ''tokens.json'') stale_world) =
     Inr JNull \<and>
   fst (readJson standin_lib durable_env u1c1 6000 ''abc'' ''tokens.json'' stale_world) =
     Inr (Some (JBool False)) \<and>
   roundTrips (snd (readJson standin_lib durable_env u1c1 6000 ''abc'' ''tokens.json''
                      stale_world)) = 2 \<and>
   cache (snd (readJson standin_lib durable_env u1c1 6000 ''abc'' ''tokens.json'' stale_world))
     (getCacheKey u1c1 ''abc'' ''tokens.json'') =
     Some \<lparr>entry_data = JBool False, entry_timestamp = 6000\<rparr> \<and>
   fst (readJson standin_lib durable_env u1c1 6000 ''abc'' ''tokens.json''
          (stale_world\<lparr>mCPRemoteToken := Map.empty\<rparr>)) = Inr None \<and>
   roundTrips (snd (readJson standin_lib durable_env u1c1 6000 ''abc'' ''tokens.json''
                      (stale_world\<lparr>mCPRemoteToken := Map.empty\<rparr>))) = 2 \<and>
   cache null_cached_world (getCacheKey u1c1 ''abc'' ''tokens.json'') =
     Some \<lparr>entry_data = JNull, entry_timestamp = 1000\<rparr> \<and>
   roundTrips null_cached_world = 1 \<and>
   roundTrips (snd (readJson standin_lib durable_env u1c1 1001 ''abc'' ''tokens.json''
                      null_cached_world)) = 2 \<and>
   reachable standin_lib durable_env stale_world \<and>
   str_truthy (env_DATABASE_URL durable_env)"
proof -
  let ?k = "getCacheKey u1c1 ''abc'' ''tokens.json''"
  let ?gone = "stale_world\<lparr>mCPRemoteToken := Map.empty\<rparr>"
  let ?row = "\<lparr>serverUrl = [], tokenData = ''00000000000000000000000000000000:83:66616c7365'',
                tokenType = JStr ''oauth'', lastUpdated = None\<rparr>"
  have entry: "cache stale_world ?k = Some \<lparr>entry_data = JStr ''t'', entry_timestamp = 1000\<rparr>"
    by (simp add: stale_world_def t_cached_world_def)
  have gentry: "cache ?gone ?k = Some \<lparr>entry_data = JStr ''t'', entry_timestamp = 1000\<rparr>"
    by (simp add: stale_world_def t_cached_world_def)
  have nentry: "cache null_cached_world ?k = Some \<lparr>entry_data = JNull, entry_timestamp = 1000\<rparr>"
    by (simp add: null_cached_world_def)
  have state: "roundTrips stale_world = 1 \<and> prisma stale_world \<noteq> None \<and>
      dbFault stale_world = None \<and>
      mCPRemoteToken stale_world (this_userId u1c1, this_connectionId u1c1, ''abc'') = Some ?row"
    by (simp add: stale_world_def t_cached_world_def world_with_token_def started_world_def
          fresh_world_def u1c1_def)
  have gstate: "roundTrips ?gone = 1 \<and> prisma ?gone \<noteq> None \<and> dbFault ?gone = None \<and>
      mCPRemoteToken ?gone (this_userId u1c1, this_connectionId u1c1, ''abc'') = None"
    by (simp add: stale_world_def t_cached_world_def world_with_token_def started_world_def
          fresh_world_def)
  have nstate: "roundTrips null_cached_world = 1 \<and> prisma null_cached_world \<noteq> None"
    by (simp add: null_cached_world_def)
  have dec: "decrypt standin_lib durable_env (tokenData ?row) (this_userId u1c1) = Inr ''false''"
    by (simp add: standin_decrypt_false u1c1_def)
  note fresh = cache_hit_within_ttl
    [where L = standin_lib and E = durable_env and this = u1c1 and h = "''abc''"
       and f = "''tokens.json''" and w = stale_world and v = "JStr ''t''" and ?t0.0 = 1000
       and \<Delta> = 4999]
  note stale = cache_hit_within_ttl
    [where L = standin_lib and E = durable_env and this = u1c1 and h = "''abc''"
       and f = "''tokens.json''" and w = stale_world and v = "JStr ''t''" and ?t0.0 = 1000
       and \<Delta> = 5000 and r = ?row and s = "''false''" and d = "JBool False"]
  note gone = cache_hit_within_ttl
    [where L = standin_lib and E = durable_env and this = u1c1 and h = "''abc''"
       and f = "''tokens.json''" and w = ?gone and v = "JStr ''t''" and ?t0.0 = 1000
       and \<Delta> = 5000]
  note null = cache_hit_within_ttl
    [where L = standin_lib and E = durable_env and this = u1c1 and h = "''abc''"
       and f = "''tokens.json''" and w = null_cached_world and v = JNull and ?t0.0 = 1000
       and \<Delta> = 1]
  from fresh entry
  have a: "readJson standin_lib durable_env u1c1 5999 ''abc'' ''tokens.json'' stale_world =
      (Inr (Some (JStr ''t'')), stale_world)"
    by simp
  from stale entry
  have b: "fst (getFromCache 6000 ?k stale_world) = Inr JNull"
    by simp
  from stale entry state dec standin_parse_false
  have c: "fst (readJson standin_lib durable_env u1c1 6000 ''abc'' ''tokens.json'' stale_world) =
      Inr (Some (JBool False)) \<and>
      roundTrips (snd (readJson standin_lib durable_env u1c1 6000 ''abc'' ''tokens.json''
        stale_world)) = 2 \<and>
      cache (snd (readJson standin_lib durable_env u1c1 6000 ''abc'' ''tokens.json''
        stale_world)) ?k = Some \<lparr>entry_data = JBool False, entry_timestamp = 6000\<rparr>"
    by simp
  from gone gentry gstate
  have d: "fst (readJson standin_lib durable_env u1c1 6000 ''abc'' ''tokens.json'' ?gone) =
      Inr None \<and>
      roundTrips (snd (readJson standin_lib durable_env u1c1 6000 ''abc'' ''tokens.json''
        ?gone)) = 2"
    by simp
  from null nentry nstate
  have e: "roundTrips (snd (readJson standin_lib durable_env u1c1 1001 ''abc'' ''tokens.json''
      null_cached_world)) = 2"
    by simp
  from stale entry stale_world_reachable
  have f: "prisma stale_world \<noteq> None \<or> str_truthy (env_DATABASE_URL durable_env)"
    by blast
  have g: "str_truthy (env_DATABASE_URL durable_env)"
    by (simp add: durable_env_def)
  from entry state a b c d nentry nstate e stale_world_reachable f g show ?thesis
    by simp
qed

section \<open>delete\<close>

lemma delete_catch_result:
  "delete_catch f e w =
     (Inr (), if error_code e = Some ''P2025'' then w
              else w\<lparr>logged := logged w @ [(''Error deleting '' @ f @ '':'', e)]\<rparr>)"
  by (simp add: delete_catch_def log_def ret_def)

text \<open>
  Claim C3, as amended. \<open>delete\<close> removes the cache entry first and then runs the record
  delete in a \<open>try\<close> block whose \<open>catch\<close> rethrows nothing: it ignores an error with code
  \<open>P2025\<close> and logs every other error. So \<open>delete\<close> completes normally on every input,
  and again when called a second time.
\<close>

theorem delete_swallows_every_failure:
  "fst (delete this h f w) = Inr () \<and>
   cache (snd (delete this h f w)) = (cache w)(getCacheKey this h f := None) \<and>
   fst (delete this h f (snd (delete this h f w))) = Inr () \<and>
   tryCatch (delete_try this h f) (delete_catch f)
     (w\<lparr>cache := (cache w)(getCacheKey this h f := None)\<rparr>) = delete this h f w \<and>
   fst (delete_catch f e w) = Inr () \<and>
   (error_code e = Some ''P2025'' \<longrightarrow> delete_catch f e w = (Inr (), w)) \<and>
   (error_code e \<noteq> Some ''P2025'' \<longrightarrow>
      delete_catch f e w =
        (Inr (), w\<lparr>logged := logged w @ [(''Error deleting '' @ f @ '':'', e)]\<rparr>))"
proof (intro conjI impI)
  show "tryCatch (delete_try this h f) (delete_catch f)
     (w\<lparr>cache := (cache w)(getCacheKey this h f := None)\<rparr>) = delete this h f w"
    by (simp add: delete_def Let_def bindIO_def cache_delete_def)
qed (simp_all add: delete_result delete_catch_result)

text \<open>
  The claim as stated fails twice over. On a world with a token record, \<open>delete\<close>
  completes normally and the record is still there, the error that stopped it (not a
  \<open>P2025\<close>) in the log and not thrown; and the \<open>catch\<close> clause, handed a connection
  failure of the record store, completes normally as well.
\<close>

theorem delete_counterexample:
  "mCPRemoteToken (world_with_token ''00000000000000000000000000000000:30:227422'')
     (''u1'', ''c1'', ''abc'') \<noteq> None \<and>
   fst (delete u1c1 ''abc'' ''tokens.json''
          (world_with_token ''00000000000000000000000000000000:30:227422'')) = Inr () \<and>
   mCPRemoteToken
     (snd (delete u1c1 ''abc'' ''tokens.json''
             (world_with_token ''00000000000000000000000000000000:30:227422'')))
     (''u1'', ''c1'', ''abc'') \<noteq> None \<and>
   logged
     (snd (delete u1c1 ''abc'' ''tokens.json''
             (world_with_token ''00000000000000000000000000000000:30:227422''))) =
     [(''Error deleting tokens.json:'', ReferenceError ''prisma is not defined'')] \<and>
   error_code (PrismaError ''P1001'') \<noteq> Some ''P2025'' \<and>
   fst (delete_catch ''tokens.json'' (PrismaError ''P1001'') fresh_world) = Inr ()"
  by (simp add: delete_result delete_catch_result world_with_token_def started_world_def
        fresh_world_def)

text \<open>
  Runs of the amended claim: \<open>delete\<close> on the world in which \<open>"t"\<close> is cached removes the
  entry and completes, twice in a row; the \<open>catch\<close> clause ignores a \<open>P2025\<close> and logs a
  connection failure.
\<close>

theorem delete_swallows_every_failure_witness:
  "cache t_cached_world (getCacheKey u1c1 ''abc'' ''tokens.json'') \<noteq> None \<and>
   fst (delete u1c1 ''abc'' ''tokens.json'' t_cached_world) = Inr () \<and>
   cache (snd (delete u1c1 ''abc'' ''tokens.json'' t_cached_world))
     (getCacheKey u1c1 ''abc'' ''tokens.json'') = None \<and>
   fst (delete u1c1 ''abc'' ''tokens.json''
          (snd (delete u1c1 ''abc'' ''tokens.json'' t_cached_world))) = Inr () \<and>
   error_code (PrismaError ''P2025'') = Some ''P2025'' \<and>
   delete_catch ''tokens.json'' (PrismaError ''P2025'') fresh_world = (Inr (), fresh_world) \<and>
   error_code (PrismaError ''P1001'') \<noteq> Some ''P2025'' \<and>
   delete_catch ''tokens.json'' (PrismaError ''P1001'') fresh_world =
     (Inr (), fresh_world\<lparr>logged := [(''Error deleting tokens.json:'', PrismaError ''P1001'')]\<rparr>)"
proof -
  note run = delete_swallows_every_failure
    [where this = u1c1 and h = "''abc''" and f = "''tokens.json''" and w = t_cached_world]
  note gone = delete_swallows_every_failure
    [where f = "''tokens.json''" and e = "PrismaError ''P2025''" and w = fresh_world]
  note down = delete_swallows_every_failure
    [where f = "''tokens.json''" and e = "PrismaError ''P1001''" and w = fresh_world]
  have entry: "cache t_cached_world (getCacheKey u1c1 ''abc'' ''tokens.json'') \<noteq> None"
    by (simp add: t_cached_world_def)
  have lg: "logged fresh_world = []"
    by (simp add: fresh_world_def)
  from run have a: "fst (delete u1c1 ''abc'' ''tokens.json'' t_cached_world) = Inr () \<and>
      cache (snd (delete u1c1 ''abc'' ''tokens.json'' t_cached_world))
        (getCacheKey u1c1 ''abc'' ''tokens.json'') = None \<and>
      fst (delete u1c1 ''abc'' ''tokens.json''
             (snd (delete u1c1 ''abc'' ''tokens.json'' t_cached_world))) = Inr ()"
    by simp
  from gone have b:
    "delete_catch ''tokens.json'' (PrismaError ''P2025'') fresh_world = (Inr (), fresh_world)"
    by simp
  from down lg have c: "delete_catch ''tokens.json'' (PrismaError ''P1001'') fresh_world =
      (Inr (), fresh_world\<lparr>logged := [(''Error deleting tokens.json:'', PrismaError ''P1001'')]\<rparr>)"
    by simp
  from entry a b c show ?thesis
    by simp
qed

section \<open>The field count of a ciphertext\<close>

lemma split_colon_not_Nil: "split_colon s \<noteq> []"
  by (induction s) (auto split: list.splits)

lemma split_colon_field:
  "CHR '':'' \<notin> set a \<Longrightarrow> split_colon (a @ CHR '':'' # r) = a # split_colon r"
  by (induction a) (auto split: list.splits)

lemma split_colon_last_field: "CHR '':'' \<notin> set a \<Longrightarrow> split_colon a = [a]"
  by (induction a) (auto split: list.splits)

lemma decrypt_few_fields: "length (split_colon s) < 3 \<Longrightarrow> \<exists>e. decrypt L E s u = Inl e"
  by (auto simp: decrypt_def Let_def bindE_def Buffer_from_def index_def
        split: sum.splits option.splits)

lemma decrypt_three_or_more:
  "split_colon s = a # b # c # rest \<Longrightarrow>
   decrypt L E s u =
     (let iv = Buffer_from_hex L a; authTag = Buffer_from_hex L b;
          key = sha256 L (ENCRYPTION_KEY E @ u)
      in case createDecipheriv L key iv of
           Some e \<Rightarrow> Inl e
         | None \<Rightarrow>
            (case setAuthTag L authTag of
               Some e \<Rightarrow> Inl e
             | None \<Rightarrow> decipher_update_final L key iv authTag c))"
  by (simp add: decrypt_def Let_def bindE_def Buffer_from_def index_def
        split: option.splits)

text \<open>
  Claim C8, as amended. \<open>decrypt\<close> takes the first three fields of the colon-split input
  and never counts them. With fewer than three fields it fails with an error, for every
  tenant id and every library: a missing field is \<open>undefined\<close>, which \<open>Buffer.from\<close> and
  \<open>decipher.update\<close> refuse. Fields after the third are ignored: the input decrypts
  exactly as its first three fields do.
\<close>

theorem decrypt_reads_three_fields:
  "(length (split_colon s) < 3 \<longrightarrow> (\<exists>e. decrypt L E s u = Inl e)) \<and>
   (CHR '':'' \<notin> set a \<and> CHR '':'' \<notin> set b \<and> CHR '':'' \<notin> set c \<longrightarrow>
      length (split_colon (a @ '':'' @ b @ '':'' @ c @ '':'' @ extra)) > 3 \<and>
      decrypt L E (a @ '':'' @ b @ '':'' @ c @ '':'' @ extra) u =
        decrypt L E (a @ '':'' @ b @ '':'' @ c) u)"
proof (intro conjI impI)
  assume "length (split_colon s) < 3"
  then show "\<exists>e. decrypt L E s u = Inl e"
    by (rule decrypt_few_fields)
next
  assume "CHR '':'' \<notin> set a \<and> CHR '':'' \<notin> set b \<and> CHR '':'' \<notin> set c"
  then have long: "split_colon (a @ '':'' @ b @ '':'' @ c @ '':'' @ extra) =
        a # b # c # split_colon extra"
    and short: "split_colon (a @ '':'' @ b @ '':'' @ c) = a # b # c # []"
    by (simp_all add: split_colon_field split_colon_last_field)
  from long show "length (split_colon (a @ '':'' @ b @ '':'' @ c @ '':'' @ extra)) > 3"
    using split_colon_not_Nil [of extra] by (cases "split_colon extra") simp_all
  from long short
  show "decrypt L E (a @ '':'' @ b @ '':'' @ c @ '':'' @ extra) u =
        decrypt L E (a @ '':'' @ b @ '':'' @ c) u"
    by (simp only: decrypt_three_or_more)
qed

lemma standin_decrypt_four_fields:
  "decrypt standin_lib durable_env ''00000000000000000000000000000000:33:6e756c6c:ff'' ''u1'' =
     Inr ''null''"
  by code_simp

text \<open>
  The claim as stated fails on four fields: the ciphertext of \<open>null\<close> with a fourth field
  appended is accepted.
\<close>

theorem decrypt_four_fields_counterexample:
  "length (split_colon ''00000000000000000000000000000000:33:6e756c6c:ff'') = 4 \<and>
   decrypt standin_lib durable_env ''00000000000000000000000000000000:33:6e756c6c:ff'' ''u1'' =
     Inr ''null''"
  by (simp add: standin_decrypt_four_fields)

text \<open>
  Runs of the amended claim: a tag and no ciphertext is an error; the fourth field makes
  no difference.
\<close>

theorem decrypt_reads_three_fields_witness:
  "length (split_colon ''00000000000000000000000000000000:33'') < 3 \<and>
   isl (decrypt standin_lib durable_env ''00000000000000000000000000000000:33'' ''u1'') \<and>
   CHR '':'' \<notin> set ''00000000000000000000000000000000'' \<and>
   CHR '':'' \<notin> set ''33'' \<and> CHR '':'' \<notin> set ''6e756c6c'' \<and>
   decrypt standin_lib durable_env
     (''00000000000000000000000000000000'' @ '':'' @ ''33'' @ '':'' @ ''6e756c6c'' @ '':''
        @ ''ff'') ''u1'' =
   decrypt standin_lib durable_env
     (''00000000000000000000000000000000'' @ '':'' @ ''33'' @ '':'' @ ''6e756c6c'') ''u1''"
proof -
  note few = decrypt_reads_three_fields
    [where L = standin_lib and E = durable_env and u = "''u1''"
       and s = "''00000000000000000000000000000000:33''"]
  note more = decrypt_reads_three_fields
    [where L = standin_lib and E = durable_env and u = "''u1''"
       and a = "''00000000000000000000000000000000''" and b = "''33''" and c = "''6e756c6c''"
       and extra = "''ff''"]
  have n: "length (split_colon ''00000000000000000000000000000000:33'') < 3"
    by simp
  have colons: "CHR '':'' \<notin> set ''00000000000000000000000000000000'' \<and>
      CHR '':'' \<notin> set ''33'' \<and> CHR '':'' \<notin> set ''6e756c6c''"
    by simp
  from few [THEN conjunct1] n
  have "\<exists>e. decrypt standin_lib durable_env ''00000000000000000000000000000000:33'' ''u1'' =
      Inl e"
    by (rule mp)
  then have e: "isl (decrypt standin_lib durable_env
      ''00000000000000000000000000000000:33'' ''u1'')"
    by auto
  from more [THEN conjunct2] colons have same: "decrypt standin_lib durable_env
     (''00000000000000000000000000000000'' @ '':'' @ ''33'' @ '':'' @ ''6e756c6c'' @ '':''
        @ ''ff'') ''u1'' =
     decrypt standin_lib durable_env
     (''00000000000000000000000000000000'' @ '':'' @ ''33'' @ '':'' @ ''6e756c6c'') ''u1''"
    by blast
  from n e colons same show ?thesis
    by blast
qed

section \<open>The backend selector\<close>

subsection \<open>What the adapter leaves alone\<close>

lemma keeps_ret: "keeps_instance (ret x)"
  by (simp add: keeps_instance_def ret_def)

lemma keeps_throw: "keeps_instance (throw e)"
  by (simp add: keeps_instance_def throw_def)

lemma keeps_liftE: "keeps_instance (liftE r)"
  by (simp add: keeps_instance_def liftE_def)

lemma keeps_log: "keeps_instance (log msg e)"
  by (simp add: keeps_instance_def log_def)

lemma keeps_bindIO:
  assumes "keeps_instance m" and "\<And>x. keeps_instance (f x)"
  shows "keeps_instance (bindIO m f)"
  unfolding keeps_instance_def
proof
  fix w
  show "storageInstance (snd (bindIO m f w)) = storageInstance w \<and>
        constructed (snd (bindIO m f w)) = constructed w"
  proof (cases "m w")
    case (Pair r w')
    with assms(1) have step: "storageInstance w' = storageInstance w \<and>
        constructed w' = constructed w"
      by (auto simp: keeps_instance_def dest: spec [of _ w])
    show ?thesis
    proof (cases r)
      case (Inl e)
      with Pair step show ?thesis
        by (simp add: bindIO_def)
    next
      case (Inr x)
      with Pair step assms(2) [of x] show ?thesis
        by (auto simp: bindIO_def keeps_instance_def dest: spec [of _ w'])
    qed
  qed
qed

lemma keeps_tryCatch:
  assumes "keeps_instance m" and "\<And>e. keeps_instance (c e)"
  shows "keeps_instance (tryCatch m c)"
  unfolding keeps_instance_def
proof
  fix w
  show "storageInstance (snd (tryCatch m c w)) = storageInstance w \<and>
        constructed (snd (tryCatch m c w)) = constructed w"
  proof (cases "m w")
    case (Pair r w')
    with assms(1) have step: "storageInstance w' = storageInstance w \<and>
        constructed w' = constructed w"
      by (auto simp: keeps_instance_def dest: spec [of _ w])
    show ?thesis
    proof (cases r)
      case (Inl e)
      with Pair step assms(2) [of e] show ?thesis
        by (auto simp: tryCatch_def keeps_instance_def dest: spec [of _ w'])
    next
      case (Inr x)
      with Pair step show ?thesis
        by (simp add: tryCatch_def)
    qed
  qed
qed

lemma keeps_if:
  "keeps_instance a \<Longrightarrow> keeps_instance b \<Longrightarrow> keeps_instance (if c then a else b)"
  by simp

lemma keeps_case_option:
  "keeps_instance a \<Longrightarrow> (\<And>x. keeps_instance (g x)) \<Longrightarrow>
   keeps_instance (case v of None \<Rightarrow> a | Some x \<Rightarrow> g x)"
  by (cases v) simp_all

lemma keeps_roundTrip: "keeps_instance work \<Longrightarrow> keeps_instance (roundTrip work)"
  by (auto simp: keeps_instance_def roundTrip_def Let_def split: option.splits)

lemma keeps_store:
  "keeps_instance (token_findUnique k)"
  "keeps_instance (clientInfo_findUnique k')"
  "keeps_instance (storage_findUnique k)"
  "keeps_instance (token_upsert k tr tu)"
  "keeps_instance (clientInfo_upsert k' cr cu)"
  "keeps_instance (storage_upsert k sr su)"
  "keeps_instance (token_delete k)"
  "keeps_instance (clientInfo_delete k')"
  "keeps_instance (storage_delete k)"
  unfolding token_findUnique_def clientInfo_findUnique_def storage_findUnique_def
    token_upsert_def clientInfo_upsert_def storage_upsert_def
    token_delete_def clientInfo_delete_def storage_delete_def
  by (rule keeps_roundTrip, simp add: keeps_instance_def split: option.splits)+

lemma keeps_primitives:
  "keeps_instance (getPrismaClient E)"
  "keeps_instance (resolveIdentifier scope name)"
  "keeps_instance (getFromCache now k)"
  "keeps_instance (setCache now k v)"
  "keeps_instance (cache_delete k)"
  "keeps_instance (onFiles g)"
  by (simp_all add: keeps_instance_def getPrismaClient_def resolveIdentifier_def ret_def
        throw_def getFromCache_def setCache_def cache_delete_def onFiles_def
        split: option.splits prod.splits)

lemmas keeps_intros =
  keeps_ret keeps_throw keeps_liftE keeps_log keeps_bindIO keeps_tryCatch keeps_if
  keeps_case_option keeps_store keeps_primitives

lemma keeps_readJson: "keeps_instance (readJson L E this now h f)"
  unfolding readJson_def readJson_try_def readJson_catch_def Let_def
  by (intro keeps_intros)

lemma keeps_writeJson: "keeps_instance (writeJson L E this iv now h f dat)"
  unfolding writeJson_def writeJson_try_def writeJson_catch_def Let_def
  by (intro keeps_intros)

lemma keeps_readText: "keeps_instance (readText L E this now h f)"
proof -
  have "keeps_instance (case dat of
         Some (JStr s) \<Rightarrow> if s \<noteq> [] then ret s else throw (Error (''Error reading '' @ f))
       | _ \<Rightarrow> throw (Error (''Error reading '' @ f)))" for dat :: "json option"
    by (simp add: keeps_ret keeps_throw split: option.splits json.splits)
  then show ?thesis
    unfolding readText_def by (intro keeps_bindIO keeps_readJson)
qed

lemma keeps_writeText: "keeps_instance (writeText L E this iv now h f txt)"
  unfolding writeText_def by (rule keeps_writeJson)

lemma keeps_delete: "keeps_instance (delete this h f)"
  unfolding delete_def delete_try_def delete_catch_def Let_def
  by (intro keeps_intros)

subsection \<open>\<open>getStorage\<close>\<close>

lemma getStorage_None:
  "(fst (getStorage E w) = None) =
     (\<not> DB_MODE E \<or> \<not> str_truthy (USER_ID E) \<or> \<not> str_truthy (CONNECTION_ID E))"
  by (cases "USER_ID E"; cases "CONNECTION_ID E")
     (auto simp: getStorage_def Let_def split: option.splits)

lemma getStorage_unchanged_on_None: "fst (getStorage E w) = None \<Longrightarrow> getStorage E w = (None, w)"
  by (cases "USER_ID E"; cases "CONNECTION_ID E")
     (auto simp: getStorage_def Let_def split: option.splits if_splits)

lemma getStorage_memo:
  "fst (getStorage E w0) \<noteq> None \<Longrightarrow> storageInstance w = Some i \<Longrightarrow>
   getStorage E w = (Some i, w)"
  by (cases "USER_ID E"; cases "CONNECTION_ID E")
     (auto simp: getStorage_def Let_def split: option.splits if_splits)

lemma getStorage_sets:
  "getStorage E w = (Some i, w1) \<Longrightarrow> storageInstance w1 = Some i"
  by (cases "USER_ID E"; cases "CONNECTION_ID E")
     (auto simp: getStorage_def Let_def split: option.splits if_splits)

lemma keeps_apply:
  "keeps_instance m \<Longrightarrow>
   storageInstance (snd (m w)) = storageInstance w \<and> constructed (snd (m w)) = constructed w"
  by (simp add: keeps_instance_def)

lemma exec_keeps:
  assumes on: "fst (getStorage E w0) \<noteq> None" and inst: "storageInstance w = Some i"
  shows "storageInstance (exec L E F c w) = Some i \<and>
         constructed (exec L E F c w) = constructed w"
proof -
  note g = getStorage_memo [OF on inst]
  show ?thesis
  proof (cases c)
    case (ReadJsonFile now h f sch)
    have "keeps_instance
        (tryCatch
          (bindIO (readJson L E i now h f) (\<lambda>dat.
             case dat of
               None \<Rightarrow> ret None
             | Some d \<Rightarrow>
                 if \<not> truthy d then ret None
                 else bindIO (liftE (sch d)) (\<lambda>result. ret (Some result))))
          (readJsonFile_catch f))"
      unfolding readJsonFile_catch_def by (intro keeps_intros keeps_readJson)
    from keeps_apply [OF this, of w] ReadJsonFile g inst show ?thesis
      by (simp add: readJsonFile_def)
  next
    case (WriteJsonFile iv now h f dat)
    from keeps_apply [OF keeps_writeJson, of L E i iv now h f dat w] WriteJsonFile g inst
    show ?thesis
      by (simp add: writeJsonFile_def)
  next
    case (ReadTextFile now h f msg)
    have "keeps_instance
        (tryCatch (readText L E i now h f)
          (\<lambda>err. throw (Error (readTextFile_message msg f))))"
      by (intro keeps_intros keeps_readText)
    from keeps_apply [OF this, of w] ReadTextFile g inst show ?thesis
      by (simp add: readTextFile_def)
  next
    case (WriteTextFile iv now h f t)
    from keeps_apply [OF keeps_writeText, of L E i iv now h f t w] WriteTextFile g inst
    show ?thesis
      by (simp add: writeTextFile_def)
  qed
qed

lemma fold_exec_keeps:
  "fst (getStorage E w0) \<noteq> None \<Longrightarrow> storageInstance w = Some i \<Longrightarrow>
   storageInstance (fold (exec L E F) cs w) = Some i \<and>
   constructed (fold (exec L E F) cs w) = constructed w"
proof (induction cs arbitrary: w)
  case Nil
  then show ?case by simp
next
  case (Cons c cs)
  from exec_keeps [OF Cons.prems, of L F c]
  have step: "storageInstance (exec L E F c w) = Some i"
    and same: "constructed (exec L E F c w) = constructed w"
    by simp_all
  from Cons.IH [OF Cons.prems(1) step] same show ?case
    by simp
qed

lemma exported_on_None:
  assumes "fst (getStorage E w) = None"
  shows "readJsonFile L E F now h f sch w = onFiles (fileReadJsonFile F h f sch) w"
    and "writeJsonFile L E F iv now h f dat w = onFiles (fileWriteJsonFile F h f dat) w"
    and "readTextFile L E F now h f msg w = onFiles (fileReadTextFile F h f msg) w"
    and "writeTextFile L E F iv now h f txt w = onFiles (fileWriteTextFile F h f txt) w"
  using getStorage_unchanged_on_None [OF assms]
  by (simp_all add: readJsonFile_def writeJsonFile_def readTextFile_def writeTextFile_def)

lemma exported_on_Some:
  assumes "fst (getStorage E w) \<noteq> None"
  shows "readJsonFile L E F now h f sch w = readJsonFile L E F' now h f sch w"
    and "writeJsonFile L E F iv now h f dat w = writeJsonFile L E F' iv now h f dat w"
    and "readTextFile L E F now h f msg w = readTextFile L E F' now h f msg w"
    and "writeTextFile L E F iv now h f txt w = writeTextFile L E F' iv now h f txt w"
proof -
  obtain st w1 where g: "getStorage E w = (Some st, w1)"
    using assms by (cases "getStorage E w") auto
  show "readJsonFile L E F now h f sch w = readJsonFile L E F' now h f sch w"
    by (simp add: readJsonFile_def g)
  show "writeJsonFile L E F iv now h f dat w = writeJsonFile L E F' iv now h f dat w"
    by (simp add: writeJsonFile_def g)
  show "readTextFile L E F now h f msg w = readTextFile L E F' now h f msg w"
    by (simp add: readTextFile_def g)
  show "writeTextFile L E F iv now h f txt w = writeTextFile L E F' iv now h f txt w"
    by (simp add: writeTextFile_def g)
qed

text \<open>
  Claim C7. \<open>getStorage\<close> returns \<open>null\<close> exactly when the mode flag is not \<open>database\<close>
  or one of the two ids is falsy, so in particular whenever the flag does not select
  the database or an id is not set. Once it has returned an instance, it returns that
  instance, and constructs no other, after any sequence of calls on the exported
  functions. Each exported function is the file-based function of the same name when
  \<open>getStorage\<close> returns \<open>null\<close>, and does not depend on the file-based functions when it
  does not.
\<close>

theorem getStorage_selects_and_memoizes:
  "((fst (getStorage E w) = None) =
      (\<not> DB_MODE E \<or> \<not> str_truthy (USER_ID E) \<or> \<not> str_truthy (CONNECTION_ID E))) \<and>
   (\<not> (DB_MODE E \<and> USER_ID E \<noteq> None \<and> CONNECTION_ID E \<noteq> None) \<longrightarrow>
      getStorage E w = (None, w)) \<and>
   (getStorage E w = (Some i, w1) \<longrightarrow>
      getStorage E (fold (exec L E F) cs w1) = (Some i, fold (exec L E F) cs w1) \<and>
      constructed (fold (exec L E F) cs w1) = constructed w1) \<and>
   (fst (getStorage E w) = None \<longrightarrow>
      readJsonFile L E F now h f sch w = onFiles (fileReadJsonFile F h f sch) w \<and>
      writeJsonFile L E F iv now h f dat w = onFiles (fileWriteJsonFile F h f dat) w \<and>
      readTextFile L E F now h f msg w = onFiles (fileReadTextFile F h f msg) w \<and>
      writeTextFile L E F iv now h f txt w = onFiles (fileWriteTextFile F h f txt) w) \<and>
   (fst (getStorage E w) \<noteq> None \<longrightarrow>
      readJsonFile L E F now h f sch w = readJsonFile L E F' now h f sch w \<and>
      writeJsonFile L E F iv now h f dat w = writeJsonFile L E F' iv now h f dat w \<and>
      readTextFile L E F now h f msg w = readTextFile L E F' now h f msg w \<and>
      writeTextFile L E F iv now h f txt w = writeTextFile L E F' iv now h f txt w)"
proof (intro conjI impI)
  show "(fst (getStorage E w) = None) =
      (\<not> DB_MODE E \<or> \<not> str_truthy (USER_ID E) \<or> \<not> str_truthy (CONNECTION_ID E))"
    by (rule getStorage_None)
next
  assume "\<not> (DB_MODE E \<and> USER_ID E \<noteq> None \<and> CONNECTION_ID E \<noteq> None)"
  then have "\<not> DB_MODE E \<or> \<not> str_truthy (USER_ID E) \<or> \<not> str_truthy (CONNECTION_ID E)"
    by auto
  then show "getStorage E w = (None, w)"
    by (simp add: getStorage_unchanged_on_None getStorage_None)
next
  assume g: "getStorage E w = (Some i, w1)"
  then have on: "fst (getStorage E w) \<noteq> None"
    by simp
  note kept = fold_exec_keeps [OF on getStorage_sets [OF g], of L F cs]
  from kept show "getStorage E (fold (exec L E F) cs w1) = (Some i, fold (exec L E F) cs w1)"
    by (simp add: getStorage_memo [OF on])
  from kept show "constructed (fold (exec L E F) cs w1) = constructed w1"
    by simp
next
  assume none: "fst (getStorage E w) = None"
  show "readJsonFile L E F now h f sch w = onFiles (fileReadJsonFile F h f sch) w"
    by (rule exported_on_None [OF none])
  show "writeJsonFile L E F iv now h f dat w = onFiles (fileWriteJsonFile F h f dat) w"
    by (rule exported_on_None [OF none])
  show "readTextFile L E F now h f msg w = onFiles (fileReadTextFile F h f msg) w"
    by (rule exported_on_None [OF none])
  show "writeTextFile L E F iv now h f txt w = onFiles (fileWriteTextFile F h f txt) w"
    by (rule exported_on_None [OF none])
next
  assume some: "fst (getStorage E w) \<noteq> None"
  show "readJsonFile L E F now h f sch w = readJsonFile L E F' now h f sch w"
    by (rule exported_on_Some [OF some])
  show "writeJsonFile L E F iv now h f dat w = writeJsonFile L E F' iv now h f dat w"
    by (rule exported_on_Some [OF some])
  show "readTextFile L E F now h f msg w = readTextFile L E F' now h f msg w"
    by (rule exported_on_Some [OF some])
  show "writeTextFile L E F iv now h f txt w = writeTextFile L E F' iv now h f txt w"
    by (rule exported_on_Some [OF some])
qed

text \<open>
  Runs: in the durable environment the first call constructs the instance of tenant
  \<open>("u1", "c1")\<close>, and after a write and a read through the exported functions
  \<open>getStorage\<close> still returns it, one instance having been constructed in all. In the
  environment without a storage mode \<open>getStorage\<close> returns \<open>null\<close> and the exported
  functions answer as the file-based ones do.
\<close>

theorem getStorage_selects_and_memoizes_witness:
  "getStorage durable_env fresh_world = (Some u1c1, started_world) \<and>
   fst (getStorage durable_env
     (fold (exec standin_lib durable_env no_files)
        [WriteTextFile zero_iv 1000 ''abc'' ''code_verifier.txt'' ''t'',
         ReadJsonFile 1001 ''abc'' ''tokens.json'' Inr] started_world)) = Some u1c1 \<and>
   constructed
     (fold (exec standin_lib durable_env no_files)
        [WriteTextFile zero_iv 1000 ''abc'' ''code_verifier.txt'' ''t'',
         ReadJsonFile 1001 ''abc'' ''tokens.json'' Inr] started_world) = 1 \<and>
   readJsonFile standin_lib durable_env no_files 1000 ''abc'' ''tokens.json'' Inr fresh_world =
     readJsonFile standin_lib durable_env
       (no_files\<lparr>fileReadJsonFile := \<lambda>h f s fs. (Inr (Some JNull), fs)\<rparr>)
       1000 ''abc'' ''tokens.json'' Inr fresh_world \<and>
   \<not> (DB_MODE file_env \<and> USER_ID file_env \<noteq> None \<and> CONNECTION_ID file_env \<noteq> None) \<and>
   getStorage file_env fresh_world = (None, fresh_world) \<and>
   readJsonFile standin_lib file_env no_files 1000 ''abc'' ''tokens.json'' Inr fresh_world =
     (Inr None, fresh_world) \<and>
   readTextFile standin_lib file_env no_files 1000 ''abc'' ''tokens.json'' None fresh_world =
     (Inl (Error ''no file''), fresh_world)"
proof -
  let ?cs = "[WriteTextFile zero_iv 1000 ''abc'' ''code_verifier.txt'' ''t'',
              ReadJsonFile 1001 ''abc'' ''tokens.json'' Inr]"
  have first: "getStorage durable_env fresh_world = (Some u1c1, started_world)"
    by (simp add: getStorage_def durable_env_def DB_MODE_def USER_ID_def CONNECTION_ID_def
          started_world_def fresh_world_def u1c1_def Let_def)
  have one: "constructed started_world = 1"
    by (simp add: started_world_def)
  have off: "\<not> (DB_MODE file_env \<and> USER_ID file_env \<noteq> None \<and> CONNECTION_ID file_env \<noteq> None)"
    by (simp add: DB_MODE_def file_env_def)
  have files: "onFiles (fileReadJsonFile no_files ''abc'' ''tokens.json'' Inr) fresh_world =
      (Inr None, fresh_world)"
    "onFiles (fileReadTextFile no_files ''abc'' ''tokens.json'' None) fresh_world =
      (Inl (Error ''no file''), fresh_world)"
    by (simp_all add: onFiles_def no_files_def)
  note durable = getStorage_selects_and_memoizes
    [where E = durable_env and w = fresh_world and i = u1c1 and ?w1.0 = started_world
       and L = standin_lib and F = no_files and cs = ?cs and now = 1000 and h = "''abc''"
       and f = "''tokens.json''" and sch = Inr
       and F' = "no_files\<lparr>fileReadJsonFile := \<lambda>h f s fs. (Inr (Some JNull), fs)\<rparr>"]
  note fallback = getStorage_selects_and_memoizes
    [where E = file_env and w = fresh_world and L = standin_lib and F = no_files
       and now = 1000 and h = "''abc''" and f = "''tokens.json''" and sch = Inr and msg = None]
  from durable first one
  have a: "fst (getStorage durable_env (fold (exec standin_lib durable_env no_files) ?cs
      started_world)) = Some u1c1 \<and>
      constructed (fold (exec standin_lib durable_env no_files) ?cs started_world) = 1"
    by simp
  from durable first
  have b: "readJsonFile standin_lib durable_env no_files 1000 ''abc'' ''tokens.json'' Inr
      fresh_world =
      readJsonFile standin_lib durable_env
        (no_files\<lparr>fileReadJsonFile := \<lambda>h f s fs. (Inr (Some JNull), fs)\<rparr>)
        1000 ''abc'' ''tokens.json'' Inr fresh_world"
    by simp
  from fallback off have none: "getStorage file_env fresh_world = (None, fresh_world)"
    by blast
  from fallback none files
  have c: "readJsonFile standin_lib file_env no_files 1000 ''abc'' ''tokens.json'' Inr
      fresh_world = (Inr None, fresh_world) \<and>
      readTextFile standin_lib file_env no_files 1000 ''abc'' ''tokens.json'' None fresh_world =
      (Inl (Error ''no file''), fresh_world)"
    by simp
  from first a b off none c show ?thesis
    by blast
qed

section \<open>The round trip\<close>

text \<open>
  Claim C1 is not what the code does. For tenant \<open>("u1", "c1")\<close> and address
  \<open>("abc", "tokens.json")\<close>, \<open>writeJson\<close> of the token object throws the \<open>ReferenceError\<close>
  of the unbound \<open>prisma\<close>: no record is stored and the cache is not refreshed. The
  \<open>readJson\<close> that follows reaches the record store, finds no record and returns
  \<open>undefined\<close>.
\<close>

theorem writeJson_readJson_on_bearer_token:
  "writeJson standin_lib durable_env u1c1 zero_iv 1000 ''abc'' ''tokens.json'' bearer_token
     started_world =
     (Inl (ReferenceError ''prisma is not defined''),
      started_world\<lparr>logged := [(''Error writing tokens.json to database:'',
                                  ReferenceError ''prisma is not defined'')]\<rparr>) \<and>
   fst (readJson standin_lib durable_env u1c1 1001 ''abc'' ''tokens.json''
          (snd (writeJson standin_lib durable_env u1c1 zero_iv 1000 ''abc'' ''tokens.json''
                  bearer_token started_world))) = Inr None"
proof -
  let ?w = "started_world\<lparr>logged := [(''Error writing tokens.json to database:'',
                                        ReferenceError ''prisma is not defined'')]\<rparr>"
  have "\<exists>c. encrypt standin_lib durable_env zero_iv
      (JSON_stringify standin_lib bearer_token) (this_userId u1c1) = Inr c"
    by (simp add: encrypt_def standin_lib_def bindE_def)
  then obtain c where enc: "encrypt standin_lib durable_env zero_iv
      (JSON_stringify standin_lib bearer_token) (this_userId u1c1) = Inr c"
    by blast
  have wr: "writeJson standin_lib durable_env u1c1 zero_iv 1000 ''abc'' ''tokens.json''
      bearer_token started_world = (Inl (ReferenceError ''prisma is not defined''), ?w)"
    by (simp add: writeJson_result enc Let_def started_world_def fresh_world_def)
  have miss: "getFromCache 1001 (getCacheKey u1c1 ''abc'' ''tokens.json'') ?w = (Inr JNull, ?w)"
    by (simp add: getFromCache_def started_world_def fresh_world_def)
  have client: "getPrismaClient durable_env ?w = (Inr (), ?w\<lparr>prisma := Some ''postgres://db''\<rparr>)"
    by (simp add: getPrismaClient_def started_world_def fresh_world_def durable_env_def)
  have rd: "fst (readJson standin_lib durable_env u1c1 1001 ''abc'' ''tokens.json'' ?w) =
      Inr None"
    by (simp add: readJson_unfold [OF miss] readJson_try_tokens [OF client] Let_def)
       (simp add: started_world_def fresh_world_def)
  from wr rd show ?thesis
    by simp
qed

section \<open>encrypt, decrypt and the tenant key\<close>






subsection \<open>The stand-in library keeps the laws\<close>















end
